theory Spec2Isabelle
  imports Complex_Main "HOL-Library.AList" "HOL-Library.Char_ord" "HOL-Library.List_Lexorder" "HOL-Library.Multiset"
begin

section \<open>The unified document\<close>

text \<open>
  The data layer of the dashboard (\<^verbatim>\<open>data-utils\<close>) reads one JSON document and reshapes it
  into chart rows. The TypeScript interfaces become records. Only the fields that the
  transformation functions read are kept; free-text fields that no function reads
  (\<^verbatim>\<open>metadata\<close>, \<^verbatim>\<open>description\<close>, \<^verbatim>\<open>insights\<close>, \<^verbatim>\<open>trends\<close>, ...) are left out.

  \<^item> \<^verbatim>\<open>number\<close> is \<open>int\<close>: the document holds case counts, which are integers, and on
    integers below \<open>2^53\<close> the double-precision \<^verbatim>\<open>+\<close> and \<^verbatim>\<open>-\<close> of JavaScript are exact.
    Where the code divides, the rounding of doubles is
    written out (section on \<^verbatim>\<open>getSummaryStats\<close>).
  \<^item> \<^verbatim>\<open>Record<string, T>\<close> is an association list in the enumeration order of the object
    (\<^verbatim>\<open>Object.keys\<close>, \<^verbatim>\<open>Object.entries\<close>, \<^verbatim>\<open>Object.values\<close> walk it front to back), and
    the list holds the object's own keys. The objects come from \<^verbatim>\<open>response.json()\<close>, so
    each of them inherits the members of \<^verbatim>\<open>Object.prototype\<close>: a read \<^verbatim>\<open>obj[k]\<close> with a
    computed key is \<open>getProp obj k\<close> below. Where the code reads a key that it spells out
    (\<^verbatim>\<open>data.total\<close>, \<^verbatim>\<open>summary['difteri']\<close>, \<^verbatim>\<open>jakarta['2023']\<close>), the key names no
    inherited member and the read is \<open>map_of obj k\<close>, \<open>None\<close> being \<^verbatim>\<open>undefined\<close>.
  \<^item> an optional field \<^verbatim>\<open>f?: T\<close> is \<open>T option\<close>.
\<close>

type_synonym 'a Record = "(string \<times> 'a) list"

text \<open>
  The property names of \<^verbatim>\<open>Object.prototype\<close>. All of them are functions, except
  \<^verbatim>\<open>__proto__\<close>, which reads as the prototype object itself; each is truthy, and none has
  a property that the code goes on to read (\<^verbatim>\<open>cases\<close>, \<^verbatim>\<open>summary\<close>, \<^verbatim>\<open>laki\<close>,
  \<^verbatim>\<open>perempuan\<close>, \<^verbatim>\<open>total\<close>). An own key hides the inherited member of the same name.
\<close>

definition inheritedNames :: "string list" where
  "inheritedNames =
     [''constructor'', ''__defineGetter__'', ''__defineSetter__'', ''hasOwnProperty'',
      ''__lookupGetter__'', ''__lookupSetter__'', ''isPrototypeOf'', ''propertyIsEnumerable'',
      ''toString'', ''valueOf'', ''__proto__'', ''toLocaleString'']"

datatype 'a lookup = Own 'a | Inherited | Missing

definition getProp :: "'a Record \<Rightarrow> string \<Rightarrow> 'a lookup" where
  "getProp obj k =
     (case map_of obj k of
        Some v \<Rightarrow> Own v
      | None \<Rightarrow> if k \<in> set inheritedNames then Inherited else Missing)"

text \<open>A property read on \<^verbatim>\<open>undefined\<close> throws a \<^verbatim>\<open>TypeError\<close>.\<close>

datatype error = TypeError

record DiseaseCount =
  laki :: int
  perempuan :: int
  total :: int

record DistrictInfo =
  district_id :: string
  district_name :: string
  district_type :: string

record RegionInfo =
  region_name :: string
  region_type :: string
  kode :: string
  districts :: "DistrictInfo list option"

record DistrictCases =
  district :: string
  diseases :: "DiseaseCount Record"

record JakartaYearData =
  periode :: string
  source :: string
  isEstimated :: "bool option"
  cases :: "DistrictCases list"
  summary :: "DiseaseCount Record"

record Subdistrict =
  sub_id :: string
  sub_name :: string

record RegionSummary =
  totalAllYears :: int
  peakYear :: int
  peakCount :: int
  hotspot :: string

record CirebonData =
  cirebon_subdistricts :: "Subdistrict list"
  cirebon_yearlyData :: "int Record Record"
  cirebon_summary :: RegionSummary

text \<open>A value of Bogor's yearly table has the type \<^verbatim>\<open>number | boolean\<close>.\<close>

datatype numbool = N int | B bool

record BogorData =
  bogor_subdistricts :: "Subdistrict list"
  bogor_yearlyData :: "numbool Record Record"
  bogor_summary :: RegionSummary

record JatimDiseaseCount =
  igd :: int
  rawat_inap :: int
  jatim_total :: int

record JatimYearData =
  jatim_periode :: string
  isPartialYear :: "bool option"
  jatim_diseases :: "JatimDiseaseCount Record"

record JatimData =
  jatim_yearlyData :: "JatimYearData Record"

record Hotspot =
  hs_region :: string
  hs_disease :: string
  hs_year :: int
  hs_cases :: int

record UnifiedData =
  regions_jakarta :: RegionInfo
  data_jakarta :: "JakartaYearData Record"
  data_cirebon :: CirebonData
  data_bogor :: BogorData
  data_jatim :: JatimData
  analytics_hotspots :: "Hotspot list"
  analytics_recommendations :: "string list"

section \<open>Jakarta: cases by district\<close>

text \<open>
  A count of a row is a number, or \<^verbatim>\<open>undefined\<close> (\<open>None\<close>) when it was read from an
  object that has no such property.
\<close>

record DistrictRow =
  row_name :: string
  row_id :: string
  row_laki :: "int option"
  row_perempuan :: "int option"
  row_total :: "int option"

record ReadCount =
  read_laki :: "int option"
  read_perempuan :: "int option"
  read_total :: "int option"

text \<open>
  \<^verbatim>\<open>districtData.diseases[disease] || { laki: 0, perempuan: 0, total: 0 }\<close>, followed by
  the reads of \<^verbatim>\<open>.laki\<close>, \<^verbatim>\<open>.perempuan\<close> and \<^verbatim>\<open>.total\<close>. An object is truthy, so the
  default is taken exactly when the lookup is \<^verbatim>\<open>undefined\<close>. An inherited member is
  truthy too, and has none of the three properties.
\<close>

definition diseaseOrZero :: "DiseaseCount Record \<Rightarrow> string \<Rightarrow> ReadCount" where
  "diseaseOrZero m disease =
     (case getProp m disease of
        Own c \<Rightarrow> \<lparr>read_laki = Some (laki c), read_perempuan = Some (perempuan c),
                  read_total = Some (total c)\<rparr>
      | Inherited \<Rightarrow> \<lparr>read_laki = None, read_perempuan = None, read_total = None\<rparr>
      | Missing \<Rightarrow> \<lparr>read_laki = Some 0, read_perempuan = Some 0, read_total = Some 0\<rparr>)"

text \<open>
  \<^verbatim>\<open>unifiedData.regions.jakarta.districts?.find(d => d.id === districtData.district)\<close>:
  \<^verbatim>\<open>undefined\<close> when the catalog is absent or has no entry with that id.
\<close>

definition findDistrict :: "RegionInfo \<Rightarrow> string \<Rightarrow> DistrictInfo option" where
  "findDistrict r i =
     (case districts r of
        None \<Rightarrow> None
      | Some ds \<Rightarrow> find (\<lambda>d. district_id d = i) ds)"

text \<open>
  \<^verbatim>\<open>districtInfo?.name || districtData.district\<close>: the empty string is falsy, so an entry
  with an empty name falls back to the id as well.
\<close>

definition displayName :: "DistrictInfo option \<Rightarrow> string \<Rightarrow> string" where
  "displayName districtInfo raw =
     (case districtInfo of
        None \<Rightarrow> raw
      | Some i \<Rightarrow> if district_name i = [] then raw else district_name i)"

definition districtRow :: "UnifiedData \<Rightarrow> string \<Rightarrow> DistrictCases \<Rightarrow> DistrictRow" where
  "districtRow unifiedData disease districtData =
     (let diseaseData = diseaseOrZero (diseases districtData) disease;
          districtInfo = findDistrict (regions_jakarta unifiedData) (district districtData)
      in \<lparr>row_name = displayName districtInfo (district districtData),
          row_id = district districtData,
          row_laki = read_laki diseaseData,
          row_perempuan = read_perempuan diseaseData,
          row_total = read_total diseaseData\<rparr>)"

text \<open>
  \<^verbatim>\<open>const yearData = unifiedData.data.jakarta[year]; if (!yearData) return [];\<close> and then
  \<^verbatim>\<open>yearData.cases.map(...)\<close>. For a year that names an inherited member the guard is not
  taken, \<^verbatim>\<open>yearData.cases\<close> is \<^verbatim>\<open>undefined\<close>, and the call of \<^verbatim>\<open>map\<close> on it throws.
\<close>

definition getJakartaDistrictData ::
  "UnifiedData \<Rightarrow> string \<Rightarrow> string \<Rightarrow> error + DistrictRow list" where
  "getJakartaDistrictData unifiedData year disease =
     (case getProp (data_jakarta unifiedData) year of
        Missing \<Rightarrow> Inr []
      | Inherited \<Rightarrow> Inl TypeError
      | Own yearData \<Rightarrow> Inr (map (districtRow unifiedData disease) (cases yearData)))"

section \<open>Numbers that may be \<^verbatim>\<open>NaN\<close>, \<^verbatim>\<open>parseInt\<close> and \<^verbatim>\<open>Array.prototype.sort\<close>\<close>

text \<open>
  \<^verbatim>\<open>parseInt\<close> yields an integer or \<^verbatim>\<open>NaN\<close>, and \<^verbatim>\<open>NaN\<close> is absorbing for \<^verbatim>\<open>+\<close> and
  \<^verbatim>\<open>-\<close>. Every comparison with \<^verbatim>\<open>NaN\<close> is false.
\<close>

datatype jsnum = Num int | NaN

fun jsAdd :: "jsnum \<Rightarrow> jsnum \<Rightarrow> jsnum" where
  "jsAdd (Num a) (Num b) = Num (a + b)"
| "jsAdd _ _ = NaN"

fun jsSub :: "jsnum \<Rightarrow> jsnum \<Rightarrow> jsnum" where
  "jsSub (Num a) (Num b) = Num (a - b)"
| "jsSub _ _ = NaN"

fun jsLess :: "jsnum \<Rightarrow> jsnum \<Rightarrow> bool" where
  "jsLess (Num a) (Num b) = (a < b)"
| "jsLess _ _ = False"

fun positive :: "jsnum \<Rightarrow> bool" where
  "positive (Num n) = (0 < n)"
| "positive NaN = False"

text \<open>
  \<^verbatim>\<open>parseInt(string, radix)\<close> of ECMAScript: skip leading white space, read an optional
  sign, with no radix given read a \<^verbatim>\<open>0x\<close> prefix as radix 16, take the longest prefix of
  digits of the radix, and return \<^verbatim>\<open>NaN\<close> when that prefix is empty. A \<open>char\<close> is one
  code unit below 256, so the white space is the ASCII white space. The value is the exact
  integer (JavaScript rounds it to a double beyond \<open>2^53\<close>).
\<close>

definition isWhiteSpace :: "char \<Rightarrow> bool" where
  "isWhiteSpace c \<longleftrightarrow> (of_char c :: nat) \<in> {9, 10, 11, 12, 13, 32}"

definition digitValue :: "nat \<Rightarrow> char \<Rightarrow> nat option" where
  "digitValue radix c =
     (let n = (of_char c :: nat);
          v = (if 48 \<le> n \<and> n \<le> 57 then Some (n - 48)
               else if 97 \<le> n \<and> n \<le> 122 then Some (n - 87)
               else if 65 \<le> n \<and> n \<le> 90 then Some (n - 55)
               else None)
      in case v of None \<Rightarrow> None | Some d \<Rightarrow> if d < radix then Some d else None)"

definition addDigit :: "nat \<Rightarrow> int \<Rightarrow> char \<Rightarrow> int" where
  "addDigit radix acc c =
     (case digitValue radix c of None \<Rightarrow> acc | Some d \<Rightarrow> acc * int radix + int d)"

definition parseDigits :: "nat \<Rightarrow> int \<Rightarrow> string \<Rightarrow> jsnum" where
  "parseDigits radix sign S =
     (let Z = takeWhile (\<lambda>c. digitValue radix c \<noteq> None) S
      in if Z = [] then NaN else Num (sign * foldl (addDigit radix) 0 Z))"

fun stripSign :: "string \<Rightarrow> int \<times> string" where
  "stripSign [] = (1, [])"
| "stripSign (c # cs) =
     (if c = CHR ''-'' then (- 1, cs) else if c = CHR ''+'' then (1, cs) else (1, c # cs))"

fun stripHexPrefix :: "string \<Rightarrow> string option" where
  "stripHexPrefix (a # b # cs) =
     (if a = CHR ''0'' \<and> (b = CHR ''x'' \<or> b = CHR ''X'') then Some cs else None)"
| "stripHexPrefix _ = None"

text \<open>\<^verbatim>\<open>parseInt(s)\<close>, as the year comparators call it.\<close>

definition parseInt :: "string \<Rightarrow> jsnum" where
  "parseInt inputString =
     (case stripSign (dropWhile isWhiteSpace inputString) of
        (sign, S) \<Rightarrow>
          (case stripHexPrefix S of
             Some H \<Rightarrow> parseDigits 16 sign H
           | None \<Rightarrow> parseDigits 10 sign S))"

text \<open>\<^verbatim>\<open>parseInt(s, 10)\<close>, as the legacy functions call it.\<close>

definition parseInt10 :: "string \<Rightarrow> jsnum" where
  "parseInt10 inputString =
     (case stripSign (dropWhile isWhiteSpace inputString) of
        (sign, S) \<Rightarrow> parseDigits 10 sign S)"

text \<open>
  \<^verbatim>\<open>array.sort(compareFn)\<close> is stable, and an element \<open>a\<close> goes after \<open>b\<close> only when
  \<^verbatim>\<open>compareFn(a, b) > 0\<close>; a \<^verbatim>\<open>NaN\<close> result counts as \<open>0\<close>. For a consistent comparator
  every stable sort returns the same array, so the sort is written as the stable
  insertion sort. (For an inconsistent comparator ECMAScript leaves the order to the
  implementation.) \<^verbatim>\<open>array.sort()\<close> without a comparator orders strings by their code
  units, which is the lexicographic order of \<open>string\<close>: it is \<^const>\<open>sort\<close>.
\<close>

fun insort_cmp :: "('a \<Rightarrow> 'a \<Rightarrow> jsnum) \<Rightarrow> 'a \<Rightarrow> 'a list \<Rightarrow> 'a list" where
  "insort_cmp cmp x [] = [x]"
| "insort_cmp cmp x (y # ys) =
     (if positive (cmp x y) then y # insort_cmp cmp x ys else x # y # ys)"

definition sort_cmp :: "('a \<Rightarrow> 'a \<Rightarrow> jsnum) \<Rightarrow> 'a list \<Rightarrow> 'a list" where
  "sort_cmp cmp xs = foldr (insort_cmp cmp) xs []"

section \<open>Rows keyed by year\<close>

text \<open>
  The two functions that walk \<^verbatim>\<open>Object.keys(...)\<close> read the mapping again at each key
  and then a property of the year's entry, which throws when the entry is not an own one.
\<close>

fun mapE :: "('a \<Rightarrow> error + 'b) \<Rightarrow> 'a list \<Rightarrow> error + 'b list" where
  "mapE f [] = Inr []"
| "mapE f (x # xs) =
     (case f x of
        Inl e \<Rightarrow> Inl e
      | Inr y \<Rightarrow> (case mapE f xs of Inl e \<Rightarrow> Inl e | Inr ys \<Rightarrow> Inr (y # ys)))"

text \<open>\<^verbatim>\<open>flag || false\<close> for an optional boolean.\<close>

definition orFalse :: "bool option \<Rightarrow> bool" where
  "orFalse flag = (case flag of None \<Rightarrow> False | Some b \<Rightarrow> b)"

record YearRow =
  yr_year :: string
  yr_total :: "int option"
  yr_laki :: "int option"
  yr_perempuan :: "int option"
  yr_isEstimated :: bool

definition jakartaYearRow :: "UnifiedData \<Rightarrow> string \<Rightarrow> string \<Rightarrow> error + YearRow" where
  "jakartaYearRow unifiedData disease year =
     (case getProp (data_jakarta unifiedData) year of
        Own yearData \<Rightarrow>
          (let s = diseaseOrZero (summary yearData) disease
           in Inr \<lparr>yr_year = year,
                   yr_total = read_total s,
                   yr_laki = read_laki s,
                   yr_perempuan = read_perempuan s,
                   yr_isEstimated = orFalse (isEstimated yearData)\<rparr>)
      | _ \<Rightarrow> Inl TypeError)"

definition getJakartaYearComparison :: "UnifiedData \<Rightarrow> string \<Rightarrow> error + YearRow list" where
  "getJakartaYearComparison unifiedData disease =
     (let years = sort (map fst (data_jakarta unifiedData))
      in mapE (jakartaYearRow unifiedData disease) years)"

text \<open>
  \<^verbatim>\<open>total: data.total as number\<close>: the cast does nothing at run time, so a year without a
  \<^verbatim>\<open>total\<close> key gives \<^verbatim>\<open>undefined\<close>, here \<open>None\<close>.
\<close>

record TrendRow =
  tr_year :: string
  tr_total :: "int option"

definition getCirebonYearlyTrend :: "UnifiedData \<Rightarrow> TrendRow list" where
  "getCirebonYearlyTrend unifiedData =
     (let yearlyData = cirebon_yearlyData (data_cirebon unifiedData)
      in sort_cmp (\<lambda>a b. jsSub (parseInt (tr_year a)) (parseInt (tr_year b)))
           (map (\<lambda>(year, data). \<lparr>tr_year = year, tr_total = map_of data ''total''\<rparr>) yearlyData))"

text \<open>
  \<^verbatim>\<open>v || d\<close> on a value of Bogor's table: \<open>0\<close>, \<^verbatim>\<open>false\<close> and \<^verbatim>\<open>undefined\<close> are falsy.
\<close>

fun truthy :: "numbool \<Rightarrow> bool" where
  "truthy (N n) = (n \<noteq> 0)"
| "truthy (B b) = b"

definition orElse :: "numbool option \<Rightarrow> numbool \<Rightarrow> numbool" where
  "orElse v d = (case v of None \<Rightarrow> d | Some x \<Rightarrow> if truthy x then x else d)"

record BogorTrendRow =
  bt_year :: string
  bt_total :: numbool
  bt_isEstimated :: numbool

definition getBogorYearlyTrend :: "UnifiedData \<Rightarrow> BogorTrendRow list" where
  "getBogorYearlyTrend unifiedData =
     (let yearlyData = bogor_yearlyData (data_bogor unifiedData)
      in sort_cmp (\<lambda>a b. jsSub (parseInt (bt_year a)) (parseInt (bt_year b)))
           (map (\<lambda>(year, data).
                   \<lparr>bt_year = year,
                    bt_total = orElse (map_of data ''total'') (N 0),
                    bt_isEstimated = orElse (map_of data ''isEstimated'') (B False)\<rparr>)
              yearlyData))"

text \<open>
  The East Java row is built as an object: \<^verbatim>\<open>{ year, isPartialYear }\<close>, then one key per
  disease of the fixed list, \<^verbatim>\<open>yearData.diseases[disease]?.total || 0\<close>.
\<close>

datatype jsval = JNum int | JStr string | JBool bool

definition jatimDiseaseIds :: "string list" where
  "jatimDiseaseIds = [''diare-akut'', ''dengue'', ''pneumonia'', ''tifoid'']"

definition jatimTotalOrZero :: "JatimDiseaseCount Record \<Rightarrow> string \<Rightarrow> int" where
  "jatimTotalOrZero m disease =
     (case getProp m disease of
        Own c \<Rightarrow> if jatim_total c \<noteq> 0 then jatim_total c else 0
      | _ \<Rightarrow> 0)"

definition jatimYearRow :: "UnifiedData \<Rightarrow> string \<Rightarrow> error + jsval Record" where
  "jatimYearRow unifiedData year =
     (case getProp (jatim_yearlyData (data_jatim unifiedData)) year of
        Own yearData \<Rightarrow>
          Inr (foldl (\<lambda>result disease.
                        AList.update disease
                          (JNum (jatimTotalOrZero (jatim_diseases yearData) disease)) result)
                 [(''year'', JStr year),
                  (''isPartialYear'', JBool (orFalse (isPartialYear yearData)))]
                 jatimDiseaseIds)
      | _ \<Rightarrow> Inl TypeError)"

definition getJatimDiseaseComparison :: "UnifiedData \<Rightarrow> error + jsval Record list" where
  "getJatimDiseaseComparison unifiedData =
     (let years = sort (map fst (jatim_yearlyData (data_jatim unifiedData)))
      in mapE (jatimYearRow unifiedData) years)"

text \<open>The \<^verbatim>\<open>year\<close> of an East Java row.\<close>

definition rowYear :: "jsval Record \<Rightarrow> string" where
  "rowYear r = (case map_of r ''year'' of Some (JStr y) \<Rightarrow> y | _ \<Rightarrow> [])"

text \<open>
  Year keys of a well-formed document: four decimal digits each, no key twice (an object
  has every key once). A list of years ascends strictly by integer value when each
  \<^verbatim>\<open>parseInt\<close> is below the next.
\<close>

definition isDigit :: "char \<Rightarrow> bool" where
  "isDigit c \<longleftrightarrow> 48 \<le> (of_char c :: nat) \<and> (of_char c :: nat) \<le> 57"

definition fourDigit :: "string \<Rightarrow> bool" where
  "fourDigit s \<longleftrightarrow> length s = 4 \<and> list_all isDigit s"

definition yearKeys :: "'a Record \<Rightarrow> bool" where
  "yearKeys m \<longleftrightarrow> distinct (map fst m) \<and> list_all fourDigit (map fst m)"

definition ascendingYears :: "string list \<Rightarrow> bool" where
  "ascendingYears ys = sorted_wrt (\<lambda>a b. jsLess (parseInt a) (parseInt b)) ys"

text \<open>The integer that a string of decimal digits denotes.\<close>

definition decimal :: "string \<Rightarrow> int" where
  "decimal s = foldl (addDigit 10) 0 s"

definition wellFormedYears :: "UnifiedData \<Rightarrow> bool" where
  "wellFormedYears unifiedData \<longleftrightarrow>
     yearKeys (data_jakarta unifiedData) \<and>
     yearKeys (cirebon_yearlyData (data_cirebon unifiedData)) \<and>
     yearKeys (bogor_yearlyData (data_bogor unifiedData)) \<and>
     yearKeys (jatim_yearlyData (data_jatim unifiedData))"

section \<open>Cumulative totals by subdistrict\<close>

text \<open>
  \<^verbatim>\<open>let total = 0\<close> and then, for every year, \<^verbatim>\<open>total += (yearData[sub.id] as number) || 0\<close>.
  The cast does nothing at run time. What is added is a number, \<^verbatim>\<open>true\<close> (Bogor's table
  may hold booleans; a falsy value has been replaced by \<open>0\<close>), or, when the id names an
  inherited member, that member. \<^verbatim>\<open>+\<close> adds numbers, counts \<^verbatim>\<open>true\<close> as \<open>1\<close>, and with a
  function or an object on one side, or a string, it concatenates the texts of both
  sides: the total is then a string, and stays one.
\<close>

datatype jstotal = TNum int | TStr string

datatype addend = ANum int | ATrue | AMember string

function decimalDigits :: "int \<Rightarrow> string" where
  "decimalDigits n =
     (if n < 10 then [char_of (48 + n)]
      else decimalDigits (n div 10) @ [char_of (48 + n mod 10)])"
  by pat_completeness auto
termination
  by (relation "measure nat") auto

text \<open>The text of an integer, and of the inherited member of a given name.\<close>

definition showInt :: "int \<Rightarrow> string" where
  "showInt n = (if n < 0 then CHR ''-'' # decimalDigits (- n) else decimalDigits n)"

definition memberText :: "string \<Rightarrow> string" where
  "memberText k =
     (if k = ''__proto__'' then ''[object Object]''
      else ''function '' @ (if k = ''constructor'' then ''Object'' else k) @
           ''() { [native code] }'')"

fun jsPlus :: "jstotal \<Rightarrow> addend \<Rightarrow> jstotal" where
  "jsPlus (TNum t) (ANum n) = TNum (t + n)"
| "jsPlus (TNum t) ATrue = TNum (t + 1)"
| "jsPlus (TNum t) (AMember k) = TStr (showInt t @ memberText k)"
| "jsPlus (TStr s) (ANum n) = TStr (s @ showInt n)"
| "jsPlus (TStr s) ATrue = TStr (s @ ''true'')"
| "jsPlus (TStr s) (AMember k) = TStr (s @ memberText k)"

text \<open>
  The total as a number, for \<^verbatim>\<open>s.total > 0\<close> and \<^verbatim>\<open>b.total - a.total\<close>. A total that is a
  string contains the text of an inherited member, which is no numeric literal: it
  converts to \<^verbatim>\<open>NaN\<close>.
\<close>

fun totalNumber :: "jstotal \<Rightarrow> jsnum" where
  "totalNumber (TNum n) = Num n"
| "totalNumber (TStr s) = NaN"

record SubRow =
  sr_name :: string
  sr_id :: string
  sr_total :: jstotal

definition cirebonAddend :: "int Record \<Rightarrow> string \<Rightarrow> addend" where
  "cirebonAddend yearData sid =
     (case getProp yearData sid of
        Own n \<Rightarrow> ANum (if n \<noteq> 0 then n else 0)
      | Inherited \<Rightarrow> AMember sid
      | Missing \<Rightarrow> ANum 0)"

definition cirebonSum :: "int Record Record \<Rightarrow> string \<Rightarrow> jstotal" where
  "cirebonSum yearlyData sid =
     foldl (\<lambda>total yearData. jsPlus total (cirebonAddend yearData sid)) (TNum 0)
       (map snd yearlyData)"

definition getCirebonBySubdistrict :: "UnifiedData \<Rightarrow> SubRow list" where
  "getCirebonBySubdistrict unifiedData =
     (let yearlyData = cirebon_yearlyData (data_cirebon unifiedData);
          subdistricts = cirebon_subdistricts (data_cirebon unifiedData)
      in sort_cmp (\<lambda>a b. jsSub (totalNumber (sr_total b)) (totalNumber (sr_total a)))
           (map (\<lambda>sub. \<lparr>sr_name = sub_name sub, sr_id = sub_id sub,
                         sr_total = cirebonSum yearlyData (sub_id sub)\<rparr>)
              subdistricts))"


definition bogorAddend :: "numbool Record \<Rightarrow> string \<Rightarrow> addend" where
  "bogorAddend yearData sid =
     (case getProp yearData sid of
        Own (N n) \<Rightarrow> ANum (if n \<noteq> 0 then n else 0)
      | Own (B b) \<Rightarrow> (if b then ATrue else ANum 0)
      | Inherited \<Rightarrow> AMember sid
      | Missing \<Rightarrow> ANum 0)"

definition bogorSum :: "numbool Record Record \<Rightarrow> string \<Rightarrow> jstotal" where
  "bogorSum yearlyData sid =
     foldl (\<lambda>total yearData. jsPlus total (bogorAddend yearData sid)) (TNum 0)
       (map snd yearlyData)"

definition getBogorBySubdistrict :: "UnifiedData \<Rightarrow> SubRow list" where
  "getBogorBySubdistrict unifiedData =
     (let yearlyData = bogor_yearlyData (data_bogor unifiedData);
          subdistricts = bogor_subdistricts (data_bogor unifiedData)
      in sort_cmp (\<lambda>a b. jsSub (totalNumber (sr_total b)) (totalNumber (sr_total a)))
           (filter (\<lambda>s. positive (totalNumber (sr_total s)))
              (map (\<lambda>sub. \<lparr>sr_name = sub_name sub, sr_id = sub_id sub,
                            sr_total = bogorSum yearlyData (sub_id sub)\<rparr>)
                 subdistricts)))"







section \<open>Headline statistics\<close>

text \<open>
  \<^verbatim>\<open>(difteriChange / difteri2022) * 100\<close> is double-precision arithmetic, and
  \<^verbatim>\<open>toFixed(1)\<close> renders the double that comes out. A finite double is the rational
  number it denotes. Division and multiplication round the exact result to the nearest
  double, ties to the even significand; the significand has 53 bits. The exponent range
  of doubles is not modelled (no overflow, no subnormal numbers): with counts below
  \<open>2^53\<close> in absolute value and a positive divisor the results are \<open>0\<close> or lie between
  \<open>2^-53\<close> and \<open>2^61\<close> in absolute value.
\<close>

function bitLength :: "int \<Rightarrow> int" where
  "bitLength n = (if n \<le> 0 then 0 else 1 + bitLength (n div 2))"
  by pat_completeness auto
termination
  by (relation "measure nat") auto

definition pow2 :: "int \<Rightarrow> rat" where
  "pow2 e = (if 0 \<le> e then 2 ^ nat e else 1 / 2 ^ nat (- e))"

text \<open>The exponent \<open>e\<close> of a positive rational: \<open>2^e \<le> x < 2^(e+1)\<close>.\<close>

definition exponent :: "rat \<Rightarrow> int" where
  "exponent x =
     (case quotient_of x of
        (a, b) \<Rightarrow>
          (let e = bitLength a - bitLength b
           in if pow2 e \<le> x then e else e - 1))"

definition roundEven :: "rat \<Rightarrow> int" where
  "roundEven x =
     (let f = \<lfloor>x\<rfloor>; d = x - of_int f
      in if d < 1 / 2 then f
         else if 1 / 2 < d then f + 1
         else if even f then f else f + 1)"

definition roundToDouble :: "rat \<Rightarrow> rat" where
  "roundToDouble x =
     (if x = 0 then 0
      else (let ulp = pow2 (exponent \<bar>x\<bar> - 52)
            in of_int (roundEven (x / ulp)) * ulp))"

definition fdiv :: "rat \<Rightarrow> rat \<Rightarrow> rat" where
  "fdiv a b = roundToDouble (a / b)"

definition fmul :: "rat \<Rightarrow> rat \<Rightarrow> rat" where
  "fmul a b = roundToDouble (a * b)"

text \<open>
  \<^verbatim>\<open>Number.prototype.toFixed(fractionDigits)\<close> for a finite \<open>x\<close> below \<open>10^21\<close> in absolute
  value: a sign for \<open>x < 0\<close>; the integer \<open>n\<close> for which \<open>n / 10^f\<close> is nearest to
  \<open>\<bar>x\<bar>\<close>, the larger one of two; its decimal digits, padded with zeros to \<open>f + 1\<close>
  digits, with the point before the last \<open>f\<close>.
\<close>

definition toFixed :: "nat \<Rightarrow> rat \<Rightarrow> string" where
  "toFixed f x =
     (let s = (if x < 0 then ''-'' else '''');
          n = \<lfloor>\<bar>x\<bar> * 10 ^ f + 1 / 2\<rfloor>;
          m = decimalDigits n;
          m = (if f \<noteq> 0 \<and> length m \<le> f then replicate (f + 1 - length m) CHR ''0'' @ m else m);
          k = length m
      in if f \<noteq> 0 then s @ take (k - f) m @ ''.'' @ drop (k - f) m else s @ m)"

record SummaryStats =
  jakartaDifteri2023 :: int
  jakartaDifteri2022 :: int
  difteriChange :: int
  difteriChangePercent :: string
  cirebonTotal :: int
  cirebonPeak :: int
  cirebonPeakYear :: int
  bogorTotal :: int
  hotspots :: "Hotspot list"
  recommendations :: "string list"

text \<open>
  \<^verbatim>\<open>jakartaYear?.summary['difteri']?.total || 0\<close>: \<open>0\<close> when the year is absent, when its
  summary has no \<^verbatim>\<open>difteri\<close>, and when the total is \<open>0\<close>.
\<close>

definition difteriTotal :: "JakartaYearData option \<Rightarrow> int" where
  "difteriTotal jakartaYear =
     (case jakartaYear of
        None \<Rightarrow> 0
      | Some yearData \<Rightarrow>
          (case map_of (summary yearData) ''difteri'' of
             None \<Rightarrow> 0
           | Some c \<Rightarrow> if total c \<noteq> 0 then total c else 0))"

definition percentChange :: "int \<Rightarrow> int \<Rightarrow> string" where
  "percentChange change prior =
     (if 0 < prior then toFixed 1 (fmul (fdiv (of_int change) (of_int prior)) 100) else ''0'')"

definition getSummaryStats :: "UnifiedData \<Rightarrow> SummaryStats" where
  "getSummaryStats unifiedData =
     (let jakarta2023 = map_of (data_jakarta unifiedData) ''2023'';
          jakarta2022 = map_of (data_jakarta unifiedData) ''2022'';
          difteri2023 = difteriTotal jakarta2023;
          difteri2022 = difteriTotal jakarta2022;
          change = difteri2023 - difteri2022
      in \<lparr>jakartaDifteri2023 = difteri2023,
          jakartaDifteri2022 = difteri2022,
          difteriChange = change,
          difteriChangePercent = percentChange change difteri2022,
          cirebonTotal = totalAllYears (cirebon_summary (data_cirebon unifiedData)),
          cirebonPeak = peakCount (cirebon_summary (data_cirebon unifiedData)),
          cirebonPeakYear = peakYear (cirebon_summary (data_cirebon unifiedData)),
          bogorTotal = totalAllYears (bogor_summary (data_bogor unifiedData)),
          hotspots = analytics_hotspots unifiedData,
          recommendations = analytics_recommendations unifiedData\<rparr>)"

section \<open>Fetching the document once\<close>

text \<open>
  The module keeps one cell, \<^verbatim>\<open>let cachedUnifiedData: UnifiedData | null = null\<close>. The
  session state holds that cell, the objects that \<^verbatim>\<open>response.json()\<close> has created (an
  object is known by its reference, its index in the heap, so that two results are the
  same object exactly when the references are equal), and the number of requests issued.
  The network is a parameter: the outcome of the \<open>n\<close>-th request, either the parsed
  document or the rejection of \<^verbatim>\<open>fetch\<close> or of \<^verbatim>\<open>response.json()\<close>. Calls are sequential:
  each one is awaited before the next starts. A document is an object, hence truthy, so
  \<^verbatim>\<open>if (cachedUnifiedData)\<close> tests whether the cell is filled.
\<close>

datatype rejection = NetworkError | SyntaxError

type_synonym ref = nat

record session =
  cachedUnifiedData :: "ref option"
  heap :: "UnifiedData list"
  requests :: nat

definition emptySession :: session where
  "emptySession = \<lparr>cachedUnifiedData = None, heap = [], requests = 0\<rparr>"

definition deref :: "session \<Rightarrow> ref \<Rightarrow> UnifiedData option" where
  "deref s r = (if r < length (heap s) then Some (heap s ! r) else None)"

definition fetchUnifiedData ::
  "(nat \<Rightarrow> rejection + UnifiedData) \<Rightarrow> session \<Rightarrow> (rejection + ref) \<times> session" where
  "fetchUnifiedData net s =
     (case cachedUnifiedData s of
        Some r \<Rightarrow> (Inr r, s)
      | None \<Rightarrow>
          (case net (requests s) of
             Inl e \<Rightarrow> (Inl e, s\<lparr>requests := requests s + 1\<rparr>)
           | Inr doc \<Rightarrow>
               (Inr (length (heap s)),
                s\<lparr>cachedUnifiedData := Some (length (heap s)),
                  heap := heap s @ [doc],
                  requests := requests s + 1\<rparr>)))"

text \<open>\<open>n\<close> calls one after the other: their results and the state after the last.\<close>

fun calls ::
  "(nat \<Rightarrow> rejection + UnifiedData) \<Rightarrow> nat \<Rightarrow> session \<Rightarrow> (rejection + ref) list \<times> session" where
  "calls net 0 s = ([], s)"
| "calls net (Suc n) s =
     (case fetchUnifiedData net s of
        (x, s') \<Rightarrow> (case calls net n s' of (xs, s'') \<Rightarrow> (x # xs, s'')))"

section \<open>Legacy rows\<close>

text \<open>
  The legacy functions read rows whose numeric fields are strings. Of the row interfaces
  the fields that the three aggregations read are kept. The per-key sums are numbers that
  may be \<^verbatim>\<open>NaN\<close>.
\<close>

record JakartaDataItem =
  periode_data :: string
  wilayah :: "string option"
  kota_atau_kabupaten :: "string option"
  jenis_kelamin :: string
  jenis_kasus :: "string option"
  jumlah :: "string option"
  jumlah_difteri :: "string option"

record CirebonDataItem =
  cirebon_id :: string
  jumlah_kasus :: string
  cirebon_tahun :: string

record BogorDataItem =
  bogor_id :: string
  jumlah_wabah_lainya :: string
  bogor_tahun :: string

text \<open>
  \<^verbatim>\<open>a || b || fallback\<close> on optional strings: \<^verbatim>\<open>undefined\<close> and the empty string are
  falsy.
\<close>

definition firstTruthy :: "string option \<Rightarrow> string option \<Rightarrow> string \<Rightarrow> string" where
  "firstTruthy a b fallback =
     (case a of
        Some x \<Rightarrow> if x \<noteq> [] then x else (case b of Some y \<Rightarrow> if y \<noteq> [] then y else fallback | None \<Rightarrow> fallback)
      | None \<Rightarrow> (case b of Some y \<Rightarrow> if y \<noteq> [] then y else fallback | None \<Rightarrow> fallback))"

text \<open>
  \<^verbatim>\<open>toLowerCase\<close> on the ASCII letters (a \<open>char\<close> is one code unit below 256),
  \<^verbatim>\<open>s.includes(t)\<close>, and \<^verbatim>\<open>s.replace(t, '')\<close>, which removes the first occurrence of \<open>t\<close>.
\<close>

definition toLowerCase :: "string \<Rightarrow> string" where
  "toLowerCase s =
     map (\<lambda>c. if 65 \<le> (of_char c :: nat) \<and> (of_char c :: nat) \<le> 90
                then char_of ((of_char c :: nat) + 32) else c) s"

fun includesStr :: "string \<Rightarrow> string \<Rightarrow> bool" where
  "includesStr [] t = (t = [])"
| "includesStr (c # cs) t = (take (length t) (c # cs) = t \<or> includesStr cs t)"

fun removeFirst :: "string \<Rightarrow> string \<Rightarrow> string" where
  "removeFirst [] t = []"
| "removeFirst (c # cs) t =
     (if take (length t) (c # cs) = t then drop (length t) (c # cs)
      else c # removeFirst cs t)"

record RegionRow =
  rr_name :: string
  rr_laki :: jsnum
  rr_perempuan :: jsnum
  rr_total :: jsnum

text \<open>
  The \<^verbatim>\<open>Map\<close> keeps its keys in insertion order: an association list, updated in place
  for a key it has and extended at the end for a new one.
\<close>

definition jumlahText :: "JakartaDataItem \<Rightarrow> string" where
  "jumlahText item = firstTruthy (jumlah item) (jumlah_difteri item) ''0''"

definition kasusMatch :: "JakartaDataItem \<Rightarrow> string \<Rightarrow> bool" where
  "kasusMatch item diseaseType =
     (case jenis_kasus item of
        None \<Rightarrow> False
      | Some k \<Rightarrow> includesStr (toLowerCase k) (toLowerCase diseaseType))"

definition jakartaStep ::
  "string \<Rightarrow> (string \<times> jsnum \<times> jsnum) list \<Rightarrow> JakartaDataItem \<Rightarrow> (string \<times> jsnum \<times> jsnum) list" where
  "jakartaStep diseaseType regionMap item =
     (let region = firstTruthy (wilayah item) (kota_atau_kabupaten item) ''Unknown''
      in if kasusMatch item diseaseType \<or> diseaseType = ''difteri'' then
           (let n = parseInt10 (jumlahText item);
                regionMap1 = (if map_of regionMap region = None
                              then AList.update region (Num 0, Num 0) regionMap
                              else regionMap);
                current = (case map_of regionMap1 region of
                             Some v \<Rightarrow> v | None \<Rightarrow> (Num 0, Num 0))
            in if includesStr (toLowerCase (jenis_kelamin item)) ''laki''
               then AList.update region (jsAdd (fst current) n, snd current) regionMap1
               else AList.update region (fst current, jsAdd (snd current) n) regionMap1)
         else regionMap)"

definition transformJakartaDataByRegion :: "JakartaDataItem list \<Rightarrow> string \<Rightarrow> RegionRow list" where
  "transformJakartaDataByRegion data diseaseType =
     map (\<lambda>(name, values).
            \<lparr>rr_name = removeFirst (removeFirst name ''KOTA ADM. '') ''KAB. ADM. '',
             rr_laki = fst values,
             rr_perempuan = snd values,
             rr_total = jsAdd (fst values) (snd values)\<rparr>)
       (foldl (jakartaStep diseaseType) [] data)"

record LegacyYearRow =
  ly_year :: string
  ly_total :: jsnum

definition yearStep :: "(string \<times> jsnum) list \<Rightarrow> string \<times> string \<Rightarrow> (string \<times> jsnum) list" where
  "yearStep yearMap item =
     (let year = fst item;
          n = parseInt10 (snd item);
          yearMap1 = (if map_of yearMap year = None then AList.update year (Num 0) yearMap
                      else yearMap);
          current = (case map_of yearMap1 year of Some v \<Rightarrow> v | None \<Rightarrow> Num 0)
      in AList.update year (jsAdd current n) yearMap1)"

definition sumByYear :: "(string \<times> string) list \<Rightarrow> LegacyYearRow list" where
  "sumByYear items =
     sort_cmp (\<lambda>a b. jsSub (parseInt (ly_year a)) (parseInt (ly_year b)))
       (map (\<lambda>(year, total). \<lparr>ly_year = year, ly_total = total\<rparr>)
          (foldl yearStep [] items))"

definition transformCirebonByYear :: "CirebonDataItem list \<Rightarrow> LegacyYearRow list" where
  "transformCirebonByYear data =
     sumByYear (map (\<lambda>item. (cirebon_tahun item, jumlah_kasus item)) data)"

definition transformBogorByYear :: "BogorDataItem list \<Rightarrow> LegacyYearRow list" where
  "transformBogorByYear data =
     sumByYear (map (\<lambda>item. (bogor_tahun item, jumlah_wabah_lainya item)) data)"

text \<open>A number that is not \<^verbatim>\<open>NaN\<close>, and a numeric field that \<^verbatim>\<open>parseInt\<close> can read.\<close>

fun isNumber :: "jsnum \<Rightarrow> bool" where
  "isNumber (Num n) = True"
| "isNumber NaN = False"

definition parses :: "string \<Rightarrow> bool" where
  "parses s = isNumber (parseInt10 s)"

section \<open>Example documents\<close>

definition noSummary :: RegionSummary where
  "noSummary = \<lparr>totalAllYears = 0, peakYear = 0, peakCount = 0, hotspot = []\<rparr>"

definition jakartaRegion :: RegionInfo where
  "jakartaRegion =
     \<lparr>region_name = ''DKI Jakarta'', region_type = ''provinsi'', kode = ''31'',
      districts = Some [\<lparr>district_id = ''jakpus'', district_name = ''Jakarta Pusat'',
                         district_type = ''kota''\<rparr>]\<rparr>"

definition year2023 :: JakartaYearData where
  "year2023 =
     \<lparr>periode = ''2023'', source = ''dinkes'', isEstimated = None,
      cases = [\<lparr>district = ''jakpus'',
                 diseases = [(''difteri'', \<lparr>laki = 3, perempuan = 2, total = 5\<rparr>)]\<rparr>,
               \<lparr>district = ''jakut'', diseases = []\<rparr>],
      summary = [(''difteri'', \<lparr>laki = 14, perempuan = 8, total = 22\<rparr>)]\<rparr>"

definition year2022 :: JakartaYearData where
  "year2022 =
     \<lparr>periode = ''2022'', source = ''dinkes'', isEstimated = Some True,
      cases = [],
      summary = [(''difteri'', \<lparr>laki = 10, perempuan = 5, total = 15\<rparr>)]\<rparr>"

definition docWith :: "JakartaYearData Record \<Rightarrow> UnifiedData" where
  "docWith jk =
     \<lparr>regions_jakarta = jakartaRegion,
      data_jakarta = jk,
      data_cirebon = \<lparr>cirebon_subdistricts = [], cirebon_yearlyData = [],
                      cirebon_summary = noSummary\<rparr>,
      data_bogor = \<lparr>bogor_subdistricts = [], bogor_yearlyData = [],
                    bogor_summary = noSummary\<rparr>,
      data_jatim = \<lparr>jatim_yearlyData = []\<rparr>,
      analytics_hotspots = [],
      analytics_recommendations = []\<rparr>"

definition fixtureDoc :: UnifiedData where
  "fixtureDoc = docWith [(''2023'', year2023), (''2022'', year2022)]"

definition trendDoc :: UnifiedData where
  "trendDoc =
     \<lparr>regions_jakarta = jakartaRegion,
      data_jakarta = [(''2023'', year2023), (''2021'', year2022), (''2022'', year2022)],
      data_cirebon =
        \<lparr>cirebon_subdistricts = [],
         cirebon_yearlyData = [(''2023'', [(''total'', 7)]), (''2021'', [(''total'', 4)]),
                               (''2022'', [(''total'', 9)])],
         cirebon_summary = noSummary\<rparr>,
      data_bogor =
        \<lparr>bogor_subdistricts = [],
         bogor_yearlyData = [(''2023'', [(''total'', N 2), (''isEstimated'', B True)]),
                             (''2021'', []), (''2022'', [(''total'', N 5)])],
         bogor_summary = noSummary\<rparr>,
      data_jatim =
        \<lparr>jatim_yearlyData =
           [(''2023'', \<lparr>jatim_periode = ''2023'', isPartialYear = Some True,
                        jatim_diseases = [(''dengue'', \<lparr>igd = 1, rawat_inap = 2, jatim_total = 3\<rparr>)]\<rparr>),
            (''2021'', \<lparr>jatim_periode = ''2021'', isPartialYear = None, jatim_diseases = []\<rparr>),
            (''2022'', \<lparr>jatim_periode = ''2022'', isPartialYear = None, jatim_diseases = []\<rparr>)]\<rparr>,
      analytics_hotspots = [],
      analytics_recommendations = []\<rparr>"

definition subDoc :: "Subdistrict list \<Rightarrow> int Record Record \<Rightarrow> UnifiedData" where
  "subDoc subs yearly =
     \<lparr>regions_jakarta = jakartaRegion,
      data_jakarta = [],
      data_cirebon = \<lparr>cirebon_subdistricts = subs, cirebon_yearlyData = yearly,
                      cirebon_summary = noSummary\<rparr>,
      data_bogor = \<lparr>bogor_subdistricts = subs,
                    bogor_yearlyData =
                      map (\<lambda>(year, yearData). (year, map (\<lambda>(k, v). (k, N v)) yearData)) yearly,
                    bogor_summary = noSummary\<rparr>,
      data_jatim = \<lparr>jatim_yearlyData = []\<rparr>,
      analytics_hotspots = [],
      analytics_recommendations = []\<rparr>"

definition threeSubs :: "Subdistrict list" where
  "threeSubs = [\<lparr>sub_id = ''a'', sub_name = ''Arjawinangun''\<rparr>,
                \<lparr>sub_id = ''b'', sub_name = ''Babakan''\<rparr>,
                \<lparr>sub_id = ''c'', sub_name = ''Ciledug''\<rparr>]"


definition inheritedIdDoc :: UnifiedData where
  "inheritedIdDoc = subDoc
     [\<lparr>sub_id = ''a'', sub_name = ''Arjawinangun''\<rparr>,
      \<lparr>sub_id = ''toString'', sub_name = ''Tengahtani''\<rparr>]
     [(''2020'', [(''a'', 2)]), (''2021'', [(''a'', 1)])]"

definition noTotalDoc :: UnifiedData where
  "noTotalDoc = subDoc threeSubs [(''2020'', [(''a'', 3)])]"



definition only2023Doc :: UnifiedData where
  "only2023Doc = docWith [(''2023'', year2023)]"

definition twoAnswers :: "nat \<Rightarrow> rejection + UnifiedData" where
  "twoAnswers n = (if n = 0 then Inr fixtureDoc else Inr trendDoc)"

definition jakartaItem :: "string \<Rightarrow> string \<Rightarrow> string option \<Rightarrow> JakartaDataItem" where
  "jakartaItem region kelamin n =
     \<lparr>periode_data = ''2022'', wilayah = Some region, kota_atau_kabupaten = None,
      jenis_kelamin = kelamin, jenis_kasus = None, jumlah = n, jumlah_difteri = None\<rparr>"

definition cirebonItem :: "string \<Rightarrow> string \<Rightarrow> CirebonDataItem" where
  "cirebonItem year n = \<lparr>cirebon_id = ''1'', jumlah_kasus = n, cirebon_tahun = year\<rparr>"

definition bogorItem :: "string \<Rightarrow> string \<Rightarrow> BogorDataItem" where
  "bogorItem year n = \<lparr>bogor_id = ''1'', jumlah_wabah_lainya = n, bogor_tahun = year\<rparr>"

section \<open>Properties of the district table\<close>

lemma getProp_own: "map_of obj k = Some v \<Longrightarrow> getProp obj k = Own v"
  by (simp add: getProp_def)

lemma getProp_missing:
  "k \<notin> fst ` set obj \<Longrightarrow> k \<notin> set inheritedNames \<Longrightarrow> getProp obj k = Missing"
  by (simp add: getProp_def map_of_eq_None_iff [THEN iffD2])

lemma getProp_inherited:
  "k \<notin> fst ` set obj \<Longrightarrow> k \<in> set inheritedNames \<Longrightarrow> getProp obj k = Inherited"
  by (simp add: getProp_def map_of_eq_None_iff [THEN iffD2])

lemma getProp_plain:
  "k \<notin> set inheritedNames \<Longrightarrow>
   getProp obj k = (case map_of obj k of Some v \<Rightarrow> Own v | None \<Rightarrow> Missing)"
  by (simp add: getProp_def)

lemma findDistrict_absent:
  assumes "\<forall>ds. districts r = Some ds \<longrightarrow> i \<notin> district_id ` set ds"
  shows "findDistrict r i = None"
proof (cases "districts r")
  case None
  then show ?thesis by (simp add: findDistrict_def)
next
  case (Some ds)
  with assms have "\<forall>d\<in>set ds. district_id d \<noteq> i" by auto
  then have "find (\<lambda>d. district_id d = i) ds = None"
    by (simp add: find_None_iff)
  with Some show ?thesis by (simp add: findDistrict_def)
qed

lemma getJakartaDistrictData_missing_year:
  assumes "year \<notin> fst ` set (data_jakarta unifiedData)" and "year \<notin> set inheritedNames"
  shows "getJakartaDistrictData unifiedData year disease = Inr []"
  using getProp_missing [OF assms] by (simp add: getJakartaDistrictData_def)

lemma getJakartaDistrictData_inherited:
  assumes "year \<notin> fst ` set (data_jakarta unifiedData)" and "year \<in> set inheritedNames"
  shows "getJakartaDistrictData unifiedData year disease = Inl TypeError"
  using getProp_inherited [OF assms] by (simp add: getJakartaDistrictData_def)

text \<open>
  C9. A year that is not a key of the Jakarta mapping gives the empty list when the
  lookup is \<^verbatim>\<open>undefined\<close> (lemma \<open>getJakartaDistrictData_missing_year\<close>). It does not
  when the year names a member that the mapping inherits: \<^verbatim>\<open>constructor\<close> is no key of the
  Jakarta data, the lookup yields the function \<^verbatim>\<open>Object\<close>, the guard
  \<^verbatim>\<open>if (!yearData) return []\<close> is passed, and \<^verbatim>\<open>yearData.cases.map\<close> throws a
  \<^verbatim>\<open>TypeError\<close>.
\<close>

theorem getJakartaDistrictData_inherited_year:
  "''constructor'' \<notin> fst ` set (data_jakarta fixtureDoc) \<and>
   getJakartaDistrictData fixtureDoc ''constructor'' ''difteri'' = Inl TypeError \<and>
   ''2019'' \<notin> fst ` set (data_jakarta fixtureDoc) \<and>
   getJakartaDistrictData fixtureDoc ''2019'' ''difteri'' = Inr []"
  by (simp add: fixtureDoc_def docWith_def getJakartaDistrictData_def getProp_def
      inheritedNames_def)

lemma getJakartaDistrictData_present:
  "map_of (data_jakarta unifiedData) year = Some yearData \<Longrightarrow>
   getJakartaDistrictData unifiedData year disease =
     Inr (map (districtRow unifiedData disease) (cases yearData))"
  by (simp add: getJakartaDistrictData_def getProp_own)

lemma districtRow_missing_disease:
  "map_of (diseases c) disease = None \<Longrightarrow> disease \<notin> set inheritedNames \<Longrightarrow>
   row_laki (districtRow u disease c) = Some 0 \<and>
   row_perempuan (districtRow u disease c) = Some 0 \<and>
   row_total (districtRow u disease c) = Some 0"
  by (simp add: districtRow_def diseaseOrZero_def getProp_def Let_def)

lemma districtRow_inherited_disease:
  "map_of (diseases c) disease = None \<Longrightarrow> disease \<in> set inheritedNames \<Longrightarrow>
   row_laki (districtRow u disease c) = None \<and>
   row_perempuan (districtRow u disease c) = None \<and>
   row_total (districtRow u disease c) = None"
  by (simp add: districtRow_def diseaseOrZero_def getProp_def Let_def)

lemma getJakartaDistrictData_rows:
  assumes "map_of (data_jakarta unifiedData) year = Some yearData"
  shows "\<exists>rows. getJakartaDistrictData unifiedData year disease = Inr rows \<and>
           length rows = length (cases yearData) \<and>
           map row_id rows = map district (cases yearData) \<and>
           (disease \<notin> set inheritedNames \<longrightarrow>
              (\<forall>i < length (cases yearData).
                 map_of (diseases (cases yearData ! i)) disease = None \<longrightarrow>
                   row_laki (rows ! i) = Some 0 \<and>
                   row_perempuan (rows ! i) = Some 0 \<and>
                   row_total (rows ! i) = Some 0))"
proof -
  let ?rows = "map (districtRow unifiedData disease) (cases yearData)"
  have rows: "getJakartaDistrictData unifiedData year disease = Inr ?rows"
    using assms by (rule getJakartaDistrictData_present)
  have ids: "map row_id ?rows = map district (cases yearData)"
    by (simp add: districtRow_def Let_def)
  have zero: "row_laki (?rows ! i) = Some 0 \<and> row_perempuan (?rows ! i) = Some 0 \<and>
              row_total (?rows ! i) = Some 0"
    if "disease \<notin> set inheritedNames" "i < length (cases yearData)"
       "map_of (diseases (cases yearData ! i)) disease = None" for i
    using that districtRow_missing_disease [of "cases yearData ! i" disease unifiedData]
    by simp
  from rows ids zero show ?thesis by simp
qed

text \<open>
  C6. For a year present in the Jakarta data there is one row per entry of the year's
  \<^verbatim>\<open>cases\<close> list, in the order of that list, and a district whose \<^verbatim>\<open>diseases\<close> mapping
  lacks the disease id gets the zero triple when the lookup is \<^verbatim>\<open>undefined\<close> (lemma
  \<open>getJakartaDistrictData_rows\<close>). It does not get it when the disease id names a member
  that the mapping inherits: no district of the year 2023 has a disease \<^verbatim>\<open>constructor\<close>,
  the lookup yields the function \<^verbatim>\<open>Object\<close>, which is truthy, the default
  \<^verbatim>\<open>|| { laki: 0, perempuan: 0, total: 0 }\<close> is not taken, and the three counts of each
  row are \<^verbatim>\<open>undefined\<close>.
\<close>

theorem getJakartaDistrictData_inherited_disease:
  "map_of (data_jakarta fixtureDoc) ''2023'' = Some year2023 \<and>
   map (\<lambda>c. map_of (diseases c) ''constructor'') (cases year2023) = [None, None] \<and>
   getJakartaDistrictData fixtureDoc ''2023'' ''constructor'' =
     Inr [\<lparr>row_name = ''Jakarta Pusat'', row_id = ''jakpus'',
           row_laki = None, row_perempuan = None, row_total = None\<rparr>,
          \<lparr>row_name = ''jakut'', row_id = ''jakut'',
           row_laki = None, row_perempuan = None, row_total = None\<rparr>] \<and>
   getJakartaDistrictData fixtureDoc ''2023'' ''difteri'' =
     Inr [\<lparr>row_name = ''Jakarta Pusat'', row_id = ''jakpus'',
           row_laki = Some 3, row_perempuan = Some 2, row_total = Some 5\<rparr>,
          \<lparr>row_name = ''jakut'', row_id = ''jakut'',
           row_laki = Some 0, row_perempuan = Some 0, row_total = Some 0\<rparr>]"
  by (simp add: fixtureDoc_def docWith_def year2023_def jakartaRegion_def
      getJakartaDistrictData_def getProp_def inheritedNames_def districtRow_def
      diseaseOrZero_def findDistrict_def displayName_def Let_def)

text \<open>
  C8. When the district id of an entry of the year's \<^verbatim>\<open>cases\<close> list matches no entry of
  the catalog \<^verbatim>\<open>regions.jakarta.districts\<close> (or the catalog is absent), the row of that
  entry has the raw district id as its name.
\<close>

theorem getJakartaDistrictData_name_fallback:
  assumes "map_of (data_jakarta unifiedData) year = Some yearData"
    and "i < length (cases yearData)"
    and "\<forall>ds. districts (regions_jakarta unifiedData) = Some ds \<longrightarrow>
           district (cases yearData ! i) \<notin> district_id ` set ds"
  shows "\<exists>rows. getJakartaDistrictData unifiedData year disease = Inr rows \<and>
           length rows = length (cases yearData) \<and>
           row_id (rows ! i) = district (cases yearData ! i) \<and>
           row_name (rows ! i) = district (cases yearData ! i)"
proof -
  have "findDistrict (regions_jakarta unifiedData) (district (cases yearData ! i)) = None"
    using assms(3) by (rule findDistrict_absent)
  then have "row_name (districtRow unifiedData disease (cases yearData ! i)) =
               district (cases yearData ! i)"
    by (simp add: districtRow_def displayName_def Let_def)
  moreover have "row_id (districtRow unifiedData disease (cases yearData ! i)) =
               district (cases yearData ! i)"
    by (simp add: districtRow_def Let_def)
  ultimately show ?thesis
    using assms(2) getJakartaDistrictData_present [OF assms(1), of disease] by simp
qed

theorem getJakartaDistrictData_name_fallback_witness:
  "map_of (data_jakarta fixtureDoc) ''2023'' = Some year2023 \<and>
   district (cases year2023 ! 1) = ''jakut'' \<and>
   districts (regions_jakarta fixtureDoc) =
     Some [\<lparr>district_id = ''jakpus'', district_name = ''Jakarta Pusat'', district_type = ''kota''\<rparr>] \<and>
   (\<exists>rows. getJakartaDistrictData fixtureDoc ''2023'' ''difteri'' = Inr rows \<and>
      row_name (rows ! 1) = ''jakut'')"
proof -
  have h: "map_of (data_jakarta fixtureDoc) ''2023'' = Some year2023"
    by (simp add: fixtureDoc_def docWith_def)
  have len: "(1::nat) < length (cases year2023)"
    by (simp add: year2023_def)
  have d: "district (cases year2023 ! 1) = ''jakut''"
    by (simp add: year2023_def)
  have cat: "districts (regions_jakarta fixtureDoc) =
     Some [\<lparr>district_id = ''jakpus'', district_name = ''Jakarta Pusat'', district_type = ''kota''\<rparr>]"
    by (simp add: fixtureDoc_def docWith_def jakartaRegion_def)
  have absent: "\<forall>ds. districts (regions_jakarta fixtureDoc) = Some ds \<longrightarrow>
           district (cases year2023 ! 1) \<notin> district_id ` set ds"
    by (simp add: cat year2023_def)
  from getJakartaDistrictData_name_fallback [OF h len absent, of "''difteri''"]
  obtain rows where "getJakartaDistrictData fixtureDoc ''2023'' ''difteri'' = Inr rows"
    and "row_name (rows ! 1) = district (cases year2023 ! 1)"
    by blast
  with h d cat show ?thesis by simp
qed

section \<open>Properties of the sort\<close>

lemma insort_cmp_key:
  "\<forall>y\<in>set ys. cmp x y = Num (f x - f y) \<Longrightarrow> insort_cmp cmp x ys = insort_key f x ys"
  by (induction ys) auto

lemma sort_cmp_key:
  "\<forall>x\<in>set xs. \<forall>y\<in>set xs. cmp x y = Num (f x - f y) \<Longrightarrow> sort_cmp cmp xs = sort_key f xs"
proof (induction xs)
  case Nil
  then show ?case by (simp add: sort_cmp_def)
next
  case (Cons x xs)
  then have IH: "sort_cmp cmp xs = sort_key f xs" by simp
  have "\<forall>y\<in>set (sort_key f xs). cmp x y = Num (f x - f y)"
    using Cons.prems by simp
  then have "insort_cmp cmp x (sort_key f xs) = insort_key f x (sort_key f xs)"
    by (rule insort_cmp_key)
  with IH show ?case by (simp add: sort_cmp_def sort_key_def)
qed

lemma mset_insort_cmp: "mset (insort_cmp cmp x ys) = add_mset x (mset ys)"
  by (induction ys) auto

lemma mset_sort_cmp: "mset (sort_cmp cmp xs) = mset xs"
  by (induction xs) (simp_all add: sort_cmp_def mset_insort_cmp)

section \<open>Four-digit years: \<^verbatim>\<open>parseInt\<close> and the order of strings\<close>

lemma isDigit_digitValue:
  "isDigit c \<Longrightarrow> digitValue 10 c = Some (of_char c - 48)"
  by (auto simp add: isDigit_def digitValue_def Let_def)

lemma isDigit_not_space: "isDigit c \<Longrightarrow> \<not> isWhiteSpace c"
  by (auto simp add: isDigit_def isWhiteSpace_def)

lemma isDigit_not_sign: "isDigit c \<Longrightarrow> c \<noteq> CHR ''-'' \<and> c \<noteq> CHR ''+''"
  by (auto simp add: isDigit_def)

lemma isDigit_not_x: "isDigit c \<Longrightarrow> c \<noteq> CHR ''x'' \<and> c \<noteq> CHR ''X''"
  by (auto simp add: isDigit_def)

lemma takeWhile_digits:
  "list_all isDigit s \<Longrightarrow> takeWhile (\<lambda>c. digitValue 10 c \<noteq> None) s = s"
  by (induction s) (simp_all add: isDigit_digitValue)

lemma stripHexPrefix_digits: "list_all isDigit s \<Longrightarrow> stripHexPrefix s = None"
proof (cases s rule: stripHexPrefix.cases)
  case (1 a b cs)
  assume "list_all isDigit s"
  with 1 have "isDigit b" by simp
  then show ?thesis using 1 isDigit_not_x [of b] by simp
qed simp_all

lemma parseInt_digits:
  assumes "s \<noteq> []" and "list_all isDigit s"
  shows "parseInt s = Num (decimal s)"
proof -
  from assms obtain c cs where s: "s = c # cs" and c: "isDigit c"
    by (cases s) auto
  have drop: "dropWhile isWhiteSpace s = s"
    using s c isDigit_not_space by simp
  have sign: "stripSign s = (1, s)"
    using s c isDigit_not_sign [of c] by simp
  have digits: "parseDigits 10 1 s = Num (decimal s)"
    unfolding parseDigits_def takeWhile_digits [OF assms(2)]
    using assms(1) by (simp add: decimal_def)
  show ?thesis
    using assms(2) by (simp add: parseInt_def drop sign stripHexPrefix_digits digits)
qed

lemma foldl_addDigit:
  "list_all isDigit s \<Longrightarrow>
   foldl (addDigit 10) acc s = acc * 10 ^ length s + foldl (addDigit 10) 0 s"
proof (induction s arbitrary: acc)
  case Nil
  then show ?case by simp
next
  case (Cons c cs)
  then have cs: "list_all isDigit cs" by simp
  have "foldl (addDigit 10) acc (c # cs) = foldl (addDigit 10) (addDigit 10 acc c) cs"
    by simp
  also have "\<dots> = addDigit 10 acc c * 10 ^ length cs + foldl (addDigit 10) 0 cs"
    using Cons.IH [OF cs] .
  finally have a: "foldl (addDigit 10) acc (c # cs) =
      addDigit 10 acc c * 10 ^ length cs + foldl (addDigit 10) 0 cs" .
  have "foldl (addDigit 10) 0 (c # cs) = foldl (addDigit 10) (addDigit 10 0 c) cs"
    by simp
  also have "\<dots> = addDigit 10 0 c * 10 ^ length cs + foldl (addDigit 10) 0 cs"
    using Cons.IH [OF cs] .
  finally have b: "foldl (addDigit 10) 0 (c # cs) =
      addDigit 10 0 c * 10 ^ length cs + foldl (addDigit 10) 0 cs" .
  from Cons.prems have "isDigit c" by simp
  then have "addDigit 10 acc c = acc * 10 + addDigit 10 0 c"
    by (simp add: addDigit_def isDigit_digitValue)
  with a b show ?case by (simp add: algebra_simps)
qed

lemma decimal_Cons:
  "list_all isDigit (c # cs) \<Longrightarrow>
   decimal (c # cs) = (int (of_char c) - 48) * 10 ^ length cs + decimal cs"
proof -
  assume a: "list_all isDigit (c # cs)"
  then have c: "isDigit c" and cs: "list_all isDigit cs" by simp_all
  from c have "48 \<le> (of_char c :: nat)" by (simp add: isDigit_def)
  then have "addDigit 10 0 c = int (of_char c) - 48"
    using c by (simp add: addDigit_def isDigit_digitValue of_nat_diff)
  then show ?thesis
    using foldl_addDigit [OF cs, of "addDigit 10 0 c"] by (simp add: decimal_def)
qed

lemma decimal_bounds:
  "list_all isDigit s \<Longrightarrow> 0 \<le> decimal s \<and> decimal s < 10 ^ length s"
proof (induction s)
  case Nil
  then show ?case by (simp add: decimal_def)
next
  case (Cons c cs)
  then have IH: "0 \<le> decimal cs" "decimal cs < 10 ^ length cs" by simp_all
  from Cons.prems have "isDigit c" by simp
  then have d: "0 \<le> int (of_char c) - 48" "int (of_char c) - 48 \<le> 9"
    by (simp_all add: isDigit_def)
  have eq: "decimal (c # cs) = (int (of_char c) - 48) * 10 ^ length cs + decimal cs"
    using Cons.prems by (rule decimal_Cons)
  have hi: "(int (of_char c) - 48) * 10 ^ length cs \<le> 9 * 10 ^ length cs"
    using d(2) by (rule mult_right_mono) simp
  have lo: "0 \<le> (int (of_char c) - 48) * 10 ^ length cs"
    using d(1) by simp
  have p: "(10::int) ^ length (c # cs) = 10 * 10 ^ length cs" by simp
  show ?case unfolding eq p using hi lo IH by linarith
qed

lemma decimal_mono:
  assumes "length a = length b" and "list_all isDigit a" and "list_all isDigit b" and "a < b"
  shows "decimal a < decimal b"
  using assms
proof (induction a b rule: list_induct2)
  case Nil
  then show ?case by simp
next
  case (Cons x xs y ys)
  let ?n = "length xs"
  have ex: "decimal (x # xs) = (int (of_char x) - 48) * 10 ^ ?n + decimal xs"
    using Cons.prems(1) by (rule decimal_Cons)
  have ey: "decimal (y # ys) = (int (of_char y) - 48) * 10 ^ ?n + decimal ys"
    using Cons.prems(2) Cons.hyps by (simp add: decimal_Cons)
  from Cons.prems have dx: "list_all isDigit xs" and dy: "list_all isDigit ys" by simp_all
  from Cons.prems(3) consider "x < y" | "x = y" "xs < ys" by auto
  then show ?case
  proof cases
    case 1
    then have "int (of_char x) - 48 + 1 \<le> int (of_char y) - 48"
      by (simp add: less_char_def)
    then have "(int (of_char x) - 48 + 1) * 10 ^ ?n \<le> (int (of_char y) - 48) * 10 ^ ?n"
      by (rule mult_right_mono) simp
    moreover have "decimal xs < 10 ^ ?n" using decimal_bounds [OF dx] by simp
    moreover have "0 \<le> decimal ys" using decimal_bounds [OF dy] by simp
    ultimately show ?thesis using ex ey by (simp add: algebra_simps)
  next
    case 2
    then have "decimal xs < decimal ys" using Cons.IH dx dy by simp
    with 2 ex ey show ?thesis by simp
  qed
qed

lemma fourDigit_parseInt: "fourDigit s \<Longrightarrow> parseInt s = Num (decimal s)"
  by (rule parseInt_digits) (auto simp add: fourDigit_def)

lemma fourDigit_less:
  "fourDigit a \<Longrightarrow> fourDigit b \<Longrightarrow> a < b \<Longrightarrow> decimal a < decimal b"
  by (rule decimal_mono) (simp_all add: fourDigit_def)

lemma fourDigit_inj:
  assumes "fourDigit a" and "fourDigit b" and "decimal a = decimal b"
  shows "a = b"
proof (rule ccontr)
  assume "a \<noteq> b"
  then consider "a < b" | "b < a" by (auto simp add: neq_iff)
  then show False
    using fourDigit_less [OF assms(1,2)] fourDigit_less [OF assms(2,1)] assms(3) by cases auto
qed

section \<open>The year-keyed functions return their rows in ascending year order\<close>

lemma mapE_keys:
  assumes "\<forall>x\<in>set xs. \<exists>y. f x = Inr y \<and> k y = x"
  shows "\<exists>ys. mapE f xs = Inr ys \<and> map k ys = xs"
  using assms
proof (induction xs)
  case Nil
  then show ?case by simp
next
  case (Cons x xs)
  then obtain ys where ys: "mapE f xs = Inr ys" "map k ys = xs" by auto
  from Cons.prems obtain y where y: "f x = Inr y" "k y = x" by auto
  from ys y show ?case by simp
qed

lemma fourDigit_jsLess:
  "fourDigit a \<Longrightarrow> fourDigit b \<Longrightarrow>
   jsLess (parseInt a) (parseInt b) \<longleftrightarrow> decimal a < decimal b"
  by (simp add: fourDigit_parseInt)

lemma sorted_keys_ascending:
  assumes "distinct ks" and "list_all fourDigit ks"
  shows "ascendingYears (sort ks)"
proof -
  have "sorted (sort ks)" and "distinct (sort ks)"
    using assms(1) by simp_all
  then have strict: "sorted_wrt (<) (sort ks)"
    by (simp add: strict_sorted_iff)
  have four: "\<forall>k\<in>set (sort ks). fourDigit k"
    using assms(2) by (simp add: list_all_iff)
  have "sorted_wrt (\<lambda>a b. jsLess (parseInt a) (parseInt b)) (sort ks)"
  proof (rule sorted_wrt_mono_rel [OF _ strict])
    fix a b
    assume "a \<in> set (sort ks)" "b \<in> set (sort ks)" "a < b"
    with four show "jsLess (parseInt a) (parseInt b)"
      by (simp add: fourDigit_jsLess fourDigit_less)
  qed
  then show ?thesis by (simp add: ascendingYears_def)
qed

lemma sort_by_year:
  assumes "distinct (map yr rows)" and "list_all fourDigit (map yr rows)"
  shows "ascendingYears (map yr (sort_cmp (\<lambda>a b. jsSub (parseInt (yr a)) (parseInt (yr b))) rows))"
proof -
  let ?cmp = "\<lambda>a b. jsSub (parseInt (yr a)) (parseInt (yr b))"
  let ?f = "\<lambda>r. decimal (yr r)"
  let ?out = "sort_key ?f rows"
  have four: "\<forall>r\<in>set rows. fourDigit (yr r)"
    using assms(2) by (simp add: list_all_iff)
  then have "\<forall>a\<in>set rows. \<forall>b\<in>set rows. ?cmp a b = Num (?f a - ?f b)"
    by (simp add: fourDigit_parseInt)
  then have out: "sort_cmp ?cmp rows = ?out"
    by (rule sort_cmp_key)
  have "inj_on decimal (set (map yr rows))"
    using four by (auto intro!: inj_onI fourDigit_inj)
  then have "distinct (map decimal (map yr rows))"
    unfolding distinct_map [of decimal] using assms(1) by blast
  then have "distinct (map ?f rows)"
    by (simp add: comp_def)
  moreover have "mset (map ?f ?out) = mset (map ?f rows)"
    by simp
  ultimately have "distinct (map ?f ?out)"
    by (metis mset_eq_imp_distinct_iff)
  moreover have "sorted (map ?f ?out)"
    by (rule sorted_sort_key)
  ultimately have "sorted_wrt (<) (map ?f ?out)"
    by (simp add: strict_sorted_iff)
  then have strict: "sorted_wrt (\<lambda>a b. ?f a < ?f b) ?out"
    by (simp add: sorted_wrt_map)
  have "sorted_wrt (\<lambda>a b. jsLess (parseInt (yr a)) (parseInt (yr b))) ?out"
  proof (rule sorted_wrt_mono_rel [OF _ strict])
    fix a b
    assume "a \<in> set ?out" "b \<in> set ?out" "?f a < ?f b"
    with four show "jsLess (parseInt (yr a)) (parseInt (yr b))"
      by (simp add: fourDigit_jsLess)
  qed
  then show ?thesis
    by (simp add: out ascendingYears_def sorted_wrt_map)
qed

lemma jakartaYearRow_key:
  "year \<in> fst ` set (data_jakarta unifiedData) \<Longrightarrow>
   \<exists>row. jakartaYearRow unifiedData disease year = Inr row \<and> yr_year row = year"
proof -
  assume "year \<in> fst ` set (data_jakarta unifiedData)"
  then obtain yearData where "map_of (data_jakarta unifiedData) year = Some yearData"
    by (metis map_of_eq_None_iff not_Some_eq)
  then show ?thesis by (simp add: jakartaYearRow_def getProp_own Let_def)
qed

lemma jatimYearRow_key:
  "year \<in> fst ` set (jatim_yearlyData (data_jatim unifiedData)) \<Longrightarrow>
   \<exists>row. jatimYearRow unifiedData year = Inr row \<and> rowYear row = year"
proof -
  assume "year \<in> fst ` set (jatim_yearlyData (data_jatim unifiedData))"
  then obtain yearData where
    "map_of (jatim_yearlyData (data_jatim unifiedData)) year = Some yearData"
    by (metis map_of_eq_None_iff not_Some_eq)
  then show ?thesis
    by (simp add: jatimYearRow_def getProp_own jatimDiseaseIds_def rowYear_def)
qed

lemma getJakartaYearComparison_years:
  "\<exists>rows. getJakartaYearComparison unifiedData disease = Inr rows \<and>
          map yr_year rows = sort (map fst (data_jakarta unifiedData))"
  unfolding getJakartaYearComparison_def Let_def
  by (rule mapE_keys) (simp add: jakartaYearRow_key)

lemma getJatimDiseaseComparison_years:
  "\<exists>rows. getJatimDiseaseComparison unifiedData = Inr rows \<and>
          map rowYear rows = sort (map fst (jatim_yearlyData (data_jatim unifiedData)))"
  unfolding getJatimDiseaseComparison_def Let_def
  by (rule mapE_keys) (simp add: jatimYearRow_key)

lemma getCirebonYearlyTrend_ascending:
  assumes "yearKeys (cirebon_yearlyData (data_cirebon unifiedData))"
  shows "ascendingYears (map tr_year (getCirebonYearlyTrend unifiedData))"
proof -
  let ?rows = "map (\<lambda>(year, data). \<lparr>tr_year = year, tr_total = map_of data ''total''\<rparr>)
                 (cirebon_yearlyData (data_cirebon unifiedData))"
  have eq: "map tr_year ?rows = map fst (cirebon_yearlyData (data_cirebon unifiedData))"
    by (simp add: case_prod_unfold comp_def)
  have "distinct (map tr_year ?rows)" "list_all fourDigit (map tr_year ?rows)"
    unfolding eq using assms by (simp_all add: yearKeys_def)
  then show ?thesis
    unfolding getCirebonYearlyTrend_def Let_def by (rule sort_by_year)
qed

lemma getBogorYearlyTrend_ascending:
  assumes "yearKeys (bogor_yearlyData (data_bogor unifiedData))"
  shows "ascendingYears (map bt_year (getBogorYearlyTrend unifiedData))"
proof -
  let ?rows = "map (\<lambda>(year, data).
                   \<lparr>bt_year = year,
                    bt_total = orElse (map_of data ''total'') (N 0),
                    bt_isEstimated = orElse (map_of data ''isEstimated'') (B False)\<rparr>)
                 (bogor_yearlyData (data_bogor unifiedData))"
  have eq: "map bt_year ?rows = map fst (bogor_yearlyData (data_bogor unifiedData))"
    by (simp add: case_prod_unfold comp_def)
  have "distinct (map bt_year ?rows)" "list_all fourDigit (map bt_year ?rows)"
    unfolding eq using assms by (simp_all add: yearKeys_def)
  then show ?thesis
    unfolding getBogorYearlyTrend_def Let_def by (rule sort_by_year)
qed

lemma mset_map_sort_cmp: "mset (map f (sort_cmp cmp xs)) = mset (map f xs)"
  by (simp add: mset_sort_cmp)

lemma getCirebonYearlyTrend_years:
  "mset (map tr_year (getCirebonYearlyTrend unifiedData)) =
   mset (map fst (cirebon_yearlyData (data_cirebon unifiedData)))"
proof -
  have "map tr_year (map (\<lambda>(year, data). \<lparr>tr_year = year, tr_total = map_of data ''total''\<rparr>)
          (cirebon_yearlyData (data_cirebon unifiedData))) =
        map fst (cirebon_yearlyData (data_cirebon unifiedData))"
    by (simp add: case_prod_unfold comp_def)
  then show ?thesis
    by (simp only: getCirebonYearlyTrend_def Let_def mset_map_sort_cmp)
qed

lemma getBogorYearlyTrend_years:
  "mset (map bt_year (getBogorYearlyTrend unifiedData)) =
   mset (map fst (bogor_yearlyData (data_bogor unifiedData)))"
proof -
  have "map bt_year (map (\<lambda>(year, data).
                   \<lparr>bt_year = year,
                    bt_total = orElse (map_of data ''total'') (N 0),
                    bt_isEstimated = orElse (map_of data ''isEstimated'') (B False)\<rparr>)
          (bogor_yearlyData (data_bogor unifiedData))) =
        map fst (bogor_yearlyData (data_bogor unifiedData))"
    by (simp add: case_prod_unfold comp_def)
  then show ?thesis
    by (simp only: getBogorYearlyTrend_def Let_def mset_map_sort_cmp)
qed

text \<open>
  C3. In a document whose year keys are four-digit strings (each key once), the four
  year-keyed functions return their rows strictly ascending by the integer value
  (\<^verbatim>\<open>parseInt\<close>) of the year, whatever the order of the keys in the input mappings, with
  one row for each key; the two functions that read the mapping again at each key never
  hit the \<^verbatim>\<open>TypeError\<close> branch.
\<close>

theorem year_rows_ascending:
  assumes "wellFormedYears unifiedData"
  shows "(\<exists>rows. getJakartaYearComparison unifiedData disease = Inr rows \<and>
            ascendingYears (map yr_year rows) \<and>
            mset (map yr_year rows) = mset (map fst (data_jakarta unifiedData))) \<and>
         ascendingYears (map tr_year (getCirebonYearlyTrend unifiedData)) \<and>
         mset (map tr_year (getCirebonYearlyTrend unifiedData)) =
           mset (map fst (cirebon_yearlyData (data_cirebon unifiedData))) \<and>
         ascendingYears (map bt_year (getBogorYearlyTrend unifiedData)) \<and>
         mset (map bt_year (getBogorYearlyTrend unifiedData)) =
           mset (map fst (bogor_yearlyData (data_bogor unifiedData))) \<and>
         (\<exists>rows. getJatimDiseaseComparison unifiedData = Inr rows \<and>
            ascendingYears (map rowYear rows) \<and>
            mset (map rowYear rows) = mset (map fst (jatim_yearlyData (data_jatim unifiedData))))"
proof -
  from assms have jk: "yearKeys (data_jakarta unifiedData)"
    and cb: "yearKeys (cirebon_yearlyData (data_cirebon unifiedData))"
    and bg: "yearKeys (bogor_yearlyData (data_bogor unifiedData))"
    and jt: "yearKeys (jatim_yearlyData (data_jatim unifiedData))"
    by (simp_all add: wellFormedYears_def)
  obtain jrows where jrows: "getJakartaYearComparison unifiedData disease = Inr jrows"
      "map yr_year jrows = sort (map fst (data_jakarta unifiedData))"
    using getJakartaYearComparison_years [of unifiedData disease] by blast
  have "ascendingYears (map yr_year jrows)"
    unfolding jrows(2) using jk by (simp add: yearKeys_def sorted_keys_ascending)
  moreover have "mset (map yr_year jrows) = mset (map fst (data_jakarta unifiedData))"
    unfolding jrows(2) by simp
  ultimately have 1: "\<exists>rows. getJakartaYearComparison unifiedData disease = Inr rows \<and>
            ascendingYears (map yr_year rows) \<and>
            mset (map yr_year rows) = mset (map fst (data_jakarta unifiedData))"
    using jrows(1) by blast
  obtain trows where trows: "getJatimDiseaseComparison unifiedData = Inr trows"
      "map rowYear trows = sort (map fst (jatim_yearlyData (data_jatim unifiedData)))"
    using getJatimDiseaseComparison_years [of unifiedData] by blast
  have "ascendingYears (map rowYear trows)"
    unfolding trows(2) using jt by (simp add: yearKeys_def sorted_keys_ascending)
  moreover have "mset (map rowYear trows) =
      mset (map fst (jatim_yearlyData (data_jatim unifiedData)))"
    unfolding trows(2) by simp
  ultimately have 4: "\<exists>rows. getJatimDiseaseComparison unifiedData = Inr rows \<and>
            ascendingYears (map rowYear rows) \<and>
            mset (map rowYear rows) = mset (map fst (jatim_yearlyData (data_jatim unifiedData)))"
    using trows(1) by blast
  from 1 4 getCirebonYearlyTrend_ascending [OF cb] getBogorYearlyTrend_ascending [OF bg]
    getCirebonYearlyTrend_years [of unifiedData] getBogorYearlyTrend_years [of unifiedData]
  show ?thesis by blast
qed

theorem year_rows_ascending_witness:
  "wellFormedYears trendDoc \<and>
   map fst (cirebon_yearlyData (data_cirebon trendDoc)) = [''2023'', ''2021'', ''2022''] \<and>
   map tr_year (getCirebonYearlyTrend trendDoc) = [''2021'', ''2022'', ''2023''] \<and>
   (\<exists>rows. getJakartaYearComparison trendDoc ''difteri'' = Inr rows \<and>
      ascendingYears (map yr_year rows)) \<and>
   ascendingYears (map tr_year (getCirebonYearlyTrend trendDoc)) \<and>
   ascendingYears (map bt_year (getBogorYearlyTrend trendDoc)) \<and>
   (\<exists>rows. getJatimDiseaseComparison trendDoc = Inr rows \<and>
      ascendingYears (map rowYear rows))"
proof -
  have wf: "wellFormedYears trendDoc"
    by (simp add: wellFormedYears_def yearKeys_def trendDoc_def fourDigit_def isDigit_def)
  have keys: "map fst (cirebon_yearlyData (data_cirebon trendDoc)) = [''2023'', ''2021'', ''2022'']"
    by (simp add: trendDoc_def)
  have out: "map tr_year (getCirebonYearlyTrend trendDoc) = [''2021'', ''2022'', ''2023'']"
    by code_simp
  from year_rows_ascending [OF wf, of "''difteri''"] wf keys out
  show ?thesis by blast
qed

section \<open>Yearly trends: the \<^verbatim>\<open>total\<close> field\<close>

lemma set_sort_cmp: "set (sort_cmp cmp xs) = set xs"
  using mset_sort_cmp [of cmp xs] by (metis set_mset_mset)

lemma getCirebonYearlyTrend_total:
  assumes "(year, yearData) \<in> set (cirebon_yearlyData (data_cirebon unifiedData))"
  shows "\<lparr>tr_year = year, tr_total = map_of yearData ''total''\<rparr>
           \<in> set (getCirebonYearlyTrend unifiedData)"
  using assms by (force simp add: getCirebonYearlyTrend_def set_sort_cmp)

lemma getBogorYearlyTrend_total:
  assumes "(year, yearData) \<in> set (bogor_yearlyData (data_bogor unifiedData))"
  shows "\<exists>r\<in>set (getBogorYearlyTrend unifiedData).
           bt_year r = year \<and>
           (map_of yearData ''total'' = None \<longrightarrow> bt_total r = N 0) \<and>
           (\<forall>n. map_of yearData ''total'' = Some (N n) \<longrightarrow> bt_total r = N n) \<and>
           (map_of yearData ''isEstimated'' = None \<longrightarrow> bt_isEstimated r = B False)"
proof -
  let ?r = "\<lparr>bt_year = year,
             bt_total = orElse (map_of yearData ''total'') (N 0),
             bt_isEstimated = orElse (map_of yearData ''isEstimated'') (B False)\<rparr>"
  have "?r \<in> set (getBogorYearlyTrend unifiedData)"
    using assms by (force simp add: getBogorYearlyTrend_def set_sort_cmp)
  moreover have "\<forall>n. orElse (Some (N n)) (N 0) = N n"
    by (simp add: orElse_def)
  ultimately show ?thesis
    by (intro bexI [of _ ?r]) (auto simp add: orElse_def)
qed

text \<open>
  C4. \<^verbatim>\<open>getBogorYearlyTrend\<close> defaults an absent \<^verbatim>\<open>total\<close> to \<open>0\<close> and an absent
  \<^verbatim>\<open>isEstimated\<close> to \<^verbatim>\<open>false\<close> (lemma \<open>getBogorYearlyTrend_total\<close>).
  \<^verbatim>\<open>getCirebonYearlyTrend\<close> has no \<^verbatim>\<open>|| 0\<close>: for a year without a \<^verbatim>\<open>total\<close> key its row
  has the total \<^verbatim>\<open>undefined\<close>, not \<open>0\<close>. The same table, read by both functions:
\<close>

theorem getCirebonYearlyTrend_absent_total:
  "map snd (cirebon_yearlyData (data_cirebon noTotalDoc)) = [[(''a'', 3)]] \<and>
   map snd (bogor_yearlyData (data_bogor noTotalDoc)) = [[(''a'', N 3)]] \<and>
   getCirebonYearlyTrend noTotalDoc = [\<lparr>tr_year = ''2020'', tr_total = None\<rparr>] \<and>
   getBogorYearlyTrend noTotalDoc =
     [\<lparr>bt_year = ''2020'', bt_total = N 0, bt_isEstimated = B False\<rparr>]"
  by (simp add: noTotalDoc_def subDoc_def getCirebonYearlyTrend_def getBogorYearlyTrend_def
      sort_cmp_def orElse_def)

section \<open>Subdistrict totals: Cirebon keeps every subdistrict, Bogor the positive ones\<close>















text \<open>
  A subdistrict id that names an inherited member: the lookup yields the member in every
  year, the total becomes a string, Cirebon keeps the row and Bogor drops it.
\<close>

lemma subdistrict_results_inherited_id:
  "map sr_total (getCirebonBySubdistrict inheritedIdDoc) =
     [TNum 3,
      TStr ''0function toString() { [native code] }function toString() { [native code] }''] \<and>
   map sr_id (getBogorBySubdistrict inheritedIdDoc) = [''a'']"
  by code_simp

section \<open>Headline statistics: change and percent change of diphtheria\<close>


lemma getSummaryStats_difteri:
  "jakartaDifteri2023 (getSummaryStats unifiedData) =
     difteriTotal (map_of (data_jakarta unifiedData) ''2023'') \<and>
   jakartaDifteri2022 (getSummaryStats unifiedData) =
     difteriTotal (map_of (data_jakarta unifiedData) ''2022'') \<and>
   difteriChange (getSummaryStats unifiedData) =
     jakartaDifteri2023 (getSummaryStats unifiedData) -
     jakartaDifteri2022 (getSummaryStats unifiedData) \<and>
   difteriChangePercent (getSummaryStats unifiedData) =
     percentChange (difteriChange (getSummaryStats unifiedData))
       (jakartaDifteri2022 (getSummaryStats unifiedData))"
  by (simp add: getSummaryStats_def Let_def)




text \<open>
  C10. \<^verbatim>\<open>getSummaryStats\<close> reads the two years through \<^verbatim>\<open>?.\<close> and \<^verbatim>\<open>|| 0\<close>, so it has
  no failing branch: it returns a record for every document. A year that is absent from
  the Jakarta data counts \<open>0\<close>; the change is computed from these values; and the percent
  change is the string \<^verbatim>\<open>"0"\<close> whenever the 2022 value is missing or \<open>0\<close>.
\<close>

theorem getSummaryStats_missing_years:
  "(map_of (data_jakarta unifiedData) ''2023'' = None \<longrightarrow>
      jakartaDifteri2023 (getSummaryStats unifiedData) = 0 \<and>
      difteriChange (getSummaryStats unifiedData) =
        - jakartaDifteri2022 (getSummaryStats unifiedData)) \<and>
   (map_of (data_jakarta unifiedData) ''2022'' = None \<longrightarrow>
      jakartaDifteri2022 (getSummaryStats unifiedData) = 0 \<and>
      difteriChange (getSummaryStats unifiedData) =
        jakartaDifteri2023 (getSummaryStats unifiedData) \<and>
      difteriChangePercent (getSummaryStats unifiedData) = ''0'') \<and>
   (\<forall>y22. map_of (data_jakarta unifiedData) ''2022'' = Some y22 \<and>
      map_of (summary y22) ''difteri'' = None \<longrightarrow>
      jakartaDifteri2022 (getSummaryStats unifiedData) = 0) \<and>
   (jakartaDifteri2022 (getSummaryStats unifiedData) = 0 \<longrightarrow>
      difteriChangePercent (getSummaryStats unifiedData) = ''0'') \<and>
   difteriChange (getSummaryStats unifiedData) =
     jakartaDifteri2023 (getSummaryStats unifiedData) -
     jakartaDifteri2022 (getSummaryStats unifiedData)"
proof -
  let ?s = "getSummaryStats unifiedData"
  note s = getSummaryStats_difteri [of unifiedData]
  have 1: "jakartaDifteri2023 ?s = 0 \<and> difteriChange ?s = - jakartaDifteri2022 ?s"
    if "map_of (data_jakarta unifiedData) ''2023'' = None"
    using that s by (simp add: difteriTotal_def)
  have 2: "jakartaDifteri2022 ?s = 0" if "map_of (data_jakarta unifiedData) ''2022'' = None"
    using that s by (simp add: difteriTotal_def)
  have 3: "jakartaDifteri2022 ?s = 0"
    if "map_of (data_jakarta unifiedData) ''2022'' = Some y22 \<and>
        map_of (summary y22) ''difteri'' = None" for y22
    using that s by (simp add: difteriTotal_def)
  have 4: "difteriChangePercent ?s = ''0''" if "jakartaDifteri2022 ?s = 0"
    using that s by (simp add: percentChange_def)
  have 5: "difteriChange ?s = jakartaDifteri2023 ?s" if "jakartaDifteri2022 ?s = 0"
    using that s by simp
  from 1 2 3 4 5 s show ?thesis by auto
qed

theorem getSummaryStats_missing_years_witness:
  "map_of (data_jakarta only2023Doc) ''2022'' = None \<and>
   jakartaDifteri2023 (getSummaryStats only2023Doc) = 22 \<and>
   jakartaDifteri2022 (getSummaryStats only2023Doc) = 0 \<and>
   difteriChange (getSummaryStats only2023Doc) = 22 \<and>
   difteriChangePercent (getSummaryStats only2023Doc) = ''0''"
proof -
  have n: "map_of (data_jakarta only2023Doc) ''2022'' = None"
    by (simp add: only2023Doc_def docWith_def)
  have c: "jakartaDifteri2023 (getSummaryStats only2023Doc) = 22"
    by (simp add: getSummaryStats_def only2023Doc_def docWith_def year2023_def
        difteriTotal_def Let_def)
  from getSummaryStats_missing_years [of only2023Doc] n c show ?thesis by simp
qed

section \<open>Memoization of the fetch\<close>

lemma fetchUnifiedData_cached:
  "cachedUnifiedData s = Some r \<Longrightarrow> fetchUnifiedData net s = (Inr r, s)"
  by (simp add: fetchUnifiedData_def)

lemma calls_cached:
  "cachedUnifiedData s = Some r \<Longrightarrow> calls net n s = (replicate n (Inr r), s)"
  by (induction n) (simp_all add: fetchUnifiedData_cached)

text \<open>
  C5. From an empty cache, a first call whose request succeeds issues exactly one
  request, creates the document object and stores its reference in the cell. Every later
  call of the session, however many, issues no request, leaves the state as it is and
  returns that same reference. So two sequential calls issue one request and return the
  same object, even when the network would answer a second request differently.
\<close>

theorem fetchUnifiedData_memoized:
  assumes "cachedUnifiedData s0 = None" and "net (requests s0) = Inr doc"
  shows "\<exists>r s1. fetchUnifiedData net s0 = (Inr r, s1) \<and>
           requests s1 = requests s0 + 1 \<and>
           cachedUnifiedData s1 = Some r \<and>
           deref s1 r = Some doc \<and>
           (\<forall>n. calls net n s1 = (replicate n (Inr r), s1)) \<and>
           calls net 2 s0 = ([Inr r, Inr r], s1)"
proof -
  let ?r = "length (heap s0)"
  let ?s1 = "s0\<lparr>cachedUnifiedData := Some ?r, heap := heap s0 @ [doc],
                requests := requests s0 + 1\<rparr>"
  have first: "fetchUnifiedData net s0 = (Inr ?r, ?s1)"
    using assms by (simp add: fetchUnifiedData_def)
  have cell: "cachedUnifiedData ?s1 = Some ?r" by simp
  have later: "calls net n ?s1 = (replicate n (Inr ?r), ?s1)" for n
    using cell by (rule calls_cached)
  have two: "calls net 2 s0 = ([Inr ?r, Inr ?r], ?s1)"
    using first fetchUnifiedData_cached [OF cell, of net]
    by (simp add: numeral_2_eq_2)
  have obj: "deref ?s1 ?r = Some doc"
    by (simp add: deref_def)
  have req: "requests ?s1 = requests s0 + 1" by simp
  from first req cell obj later two show ?thesis by blast
qed

theorem fetchUnifiedData_memoized_witness:
  "cachedUnifiedData emptySession = None \<and>
   twoAnswers (requests emptySession) = Inr fixtureDoc \<and>
   calls twoAnswers 2 emptySession =
     ([Inr 0, Inr 0],
      \<lparr>cachedUnifiedData = Some 0, heap = [fixtureDoc], requests = 1\<rparr>)"
proof -
  have e: "cachedUnifiedData emptySession = None"
    by (simp add: emptySession_def)
  have n: "twoAnswers (requests emptySession) = Inr fixtureDoc"
    by (simp add: emptySession_def twoAnswers_def)
  from fetchUnifiedData_memoized [of emptySession twoAnswers fixtureDoc, OF e n]
  obtain r s1 where first: "fetchUnifiedData twoAnswers emptySession = (Inr r, s1)"
    and two: "calls twoAnswers 2 emptySession = ([Inr r, Inr r], s1)"
    by blast
  have "fetchUnifiedData twoAnswers emptySession =
      (Inr 0, \<lparr>cachedUnifiedData = Some 0, heap = [fixtureDoc], requests = 1\<rparr>)"
    by (simp add: fetchUnifiedData_def emptySession_def twoAnswers_def)
  with first have "r = 0" "s1 = \<lparr>cachedUnifiedData = Some 0, heap = [fixtureDoc], requests = 1\<rparr>"
    by simp_all
  with two e n show ?thesis by simp
qed

section \<open>Legacy aggregations: when the sums are numbers\<close>

lemma update_values:
  "\<forall>p\<in>set m. P (snd p) \<Longrightarrow> P v \<Longrightarrow> \<forall>p\<in>set (AList.update k v m). P (snd p)"
  by (induction m) auto

lemma lookup_value:
  assumes "\<forall>p\<in>set m. P (snd p)" and "map_of m k = Some v"
  shows "P v"
proof -
  from assms(2) have "(k, v) \<in> set m" by (rule map_of_SomeD)
  with assms(1) have "P (snd (k, v))" by blast
  then show ?thesis by simp
qed

lemma isNumber_jsAdd: "isNumber a \<Longrightarrow> isNumber b \<Longrightarrow> isNumber (jsAdd a b)"
  by (cases a; cases b) simp_all

lemma yearStep_numbers:
  assumes "\<forall>p\<in>set yearMap. isNumber (snd p)" and "parses (snd item)"
  shows "\<forall>p\<in>set (yearStep yearMap item). isNumber (snd p)"
proof -
  let ?year = "fst item"
  let ?m1 = "if map_of yearMap ?year = None then AList.update ?year (Num 0) yearMap else yearMap"
  let ?current = "case map_of ?m1 ?year of Some v \<Rightarrow> v | None \<Rightarrow> Num 0"
  have m1: "\<forall>p\<in>set ?m1. isNumber (snd p)"
    using assms(1) update_values [of yearMap isNumber "Num 0" ?year] by simp
  have "isNumber ?current"
  proof (cases "map_of ?m1 ?year")
    case None
    then show ?thesis by simp
  next
    case (Some v)
    with m1 have "isNumber v" by (rule lookup_value)
    with Some show ?thesis by simp
  qed
  then have "isNumber (jsAdd ?current (parseInt10 (snd item)))"
    using assms(2) by (simp add: isNumber_jsAdd parses_def)
  with m1 have "\<forall>p\<in>set (AList.update ?year (jsAdd ?current (parseInt10 (snd item))) ?m1).
      isNumber (snd p)"
    by (rule update_values)
  then show ?thesis by (simp add: yearStep_def Let_def)
qed

lemma foldl_yearStep_numbers:
  "\<forall>p\<in>set yearMap. isNumber (snd p) \<Longrightarrow> \<forall>item\<in>set items. parses (snd item) \<Longrightarrow>
   \<forall>p\<in>set (foldl yearStep yearMap items). isNumber (snd p)"
proof (induction items arbitrary: yearMap)
  case Nil
  then show ?case by simp
next
  case (Cons item items)
  have "\<forall>p\<in>set (yearStep yearMap item). isNumber (snd p)"
    using Cons.prems by (intro yearStep_numbers) simp_all
  then show ?case using Cons.IH Cons.prems(2) by simp
qed

lemma sumByYear_numbers:
  assumes "\<forall>item\<in>set items. parses (snd item)"
  shows "\<forall>r\<in>set (sumByYear items). isNumber (ly_total r)"
proof -
  have "\<forall>p\<in>set (foldl yearStep [] items). isNumber (snd p)"
    using assms by (intro foldl_yearStep_numbers) simp_all
  then show ?thesis
    by (auto simp add: sumByYear_def set_sort_cmp)
qed

lemma jakartaStep_numbers:
  assumes "\<forall>p\<in>set regionMap. isNumber (fst (snd p)) \<and> isNumber (snd (snd p))"
    and "parses (jumlahText item)"
  shows "\<forall>p\<in>set (jakartaStep diseaseType regionMap item).
           isNumber (fst (snd p)) \<and> isNumber (snd (snd p))"
proof (cases "kasusMatch item diseaseType \<or> diseaseType = ''difteri''")
  case False
  with assms(1) show ?thesis by (simp add: jakartaStep_def Let_def)
next
  case True
  let ?P = "\<lambda>v. isNumber (fst v) \<and> isNumber (snd v)"
  let ?region = "firstTruthy (wilayah item) (kota_atau_kabupaten item) ''Unknown''"
  let ?n = "parseInt10 (jumlahText item)"
  let ?m1 = "if map_of regionMap ?region = None
             then AList.update ?region (Num 0, Num 0) regionMap else regionMap"
  let ?current = "case map_of ?m1 ?region of Some v \<Rightarrow> v | None \<Rightarrow> (Num 0, Num 0)"
  have n: "isNumber ?n" using assms(2) by (simp add: parses_def)
  have m1: "\<forall>p\<in>set ?m1. ?P (snd p)"
    using assms(1) update_values [of regionMap ?P "(Num 0, Num 0)" ?region] by simp
  have cur: "?P ?current"
  proof (cases "map_of ?m1 ?region")
    case None
    then show ?thesis by simp
  next
    case (Some v)
    with m1 have "?P v" by (rule lookup_value)
    with Some show ?thesis by simp
  qed
  have a: "\<forall>p\<in>set (AList.update ?region (jsAdd (fst ?current) ?n, snd ?current) ?m1). ?P (snd p)"
    using m1 cur n by (intro update_values) (simp_all add: isNumber_jsAdd)
  have b: "\<forall>p\<in>set (AList.update ?region (fst ?current, jsAdd (snd ?current) ?n) ?m1). ?P (snd p)"
    using m1 cur n by (intro update_values) (simp_all add: isNumber_jsAdd)
  show ?thesis
  proof (cases "includesStr (toLowerCase (jenis_kelamin item)) ''laki''")
    case True
    with \<open>kasusMatch item diseaseType \<or> diseaseType = ''difteri''\<close> a show ?thesis
      by (simp add: jakartaStep_def Let_def)
  next
    case False
    with \<open>kasusMatch item diseaseType \<or> diseaseType = ''difteri''\<close> b show ?thesis
      by (simp add: jakartaStep_def Let_def)
  qed
qed

lemma foldl_jakartaStep_numbers:
  "\<forall>p\<in>set regionMap. isNumber (fst (snd p)) \<and> isNumber (snd (snd p)) \<Longrightarrow>
   \<forall>item\<in>set data. parses (jumlahText item) \<Longrightarrow>
   \<forall>p\<in>set (foldl (jakartaStep diseaseType) regionMap data).
      isNumber (fst (snd p)) \<and> isNumber (snd (snd p))"
proof (induction data arbitrary: regionMap)
  case Nil
  then show ?case by simp
next
  case (Cons item data)
  have "\<forall>p\<in>set (jakartaStep diseaseType regionMap item).
          isNumber (fst (snd p)) \<and> isNumber (snd (snd p))"
    using Cons.prems by (intro jakartaStep_numbers) simp_all
  then show ?case using Cons.IH Cons.prems(2) by simp
qed

lemma jumlahText_empty:
  assumes "jumlah item = None \<or> jumlah item = Some []"
    and "jumlah_difteri item = None \<or> jumlah_difteri item = Some []"
  shows "parseInt10 (jumlahText item) = Num 0"
proof -
  have "jumlahText item = ''0''"
    using assms by (auto simp add: jumlahText_def firstTruthy_def)
  moreover have "parseInt10 ''0'' = Num 0"
    by (simp add: parseInt10_def parseDigits_def isWhiteSpace_def digitValue_def addDigit_def)
  ultimately show ?thesis by simp
qed

text \<open>
  C7. The three legacy aggregations have no failing branch. When every
  numeric field they read parses (\<^verbatim>\<open>parseInt(s, 10)\<close> finds an integer at the start of the
  text), every sum in their output is a number, not \<^verbatim>\<open>NaN\<close>. In
  \<^verbatim>\<open>transformJakartaDataByRegion\<close> a row whose \<^verbatim>\<open>jumlah\<close> and \<^verbatim>\<open>jumlah_difteri\<close> are absent
  or empty counts \<open>0\<close>.
\<close>

theorem legacy_sums_numbers:
  "((\<forall>item\<in>set jakarta. parses (jumlahText item)) \<longrightarrow>
      (\<forall>r\<in>set (transformJakartaDataByRegion jakarta diseaseType).
         isNumber (rr_laki r) \<and> isNumber (rr_perempuan r) \<and> isNumber (rr_total r))) \<and>
   ((\<forall>item\<in>set cirebon. parses (jumlah_kasus item)) \<longrightarrow>
      (\<forall>r\<in>set (transformCirebonByYear cirebon). isNumber (ly_total r))) \<and>
   ((\<forall>item\<in>set bogor. parses (jumlah_wabah_lainya item)) \<longrightarrow>
      (\<forall>r\<in>set (transformBogorByYear bogor). isNumber (ly_total r))) \<and>
   (\<forall>item. (jumlah item = None \<or> jumlah item = Some []) \<and>
           (jumlah_difteri item = None \<or> jumlah_difteri item = Some []) \<longrightarrow>
           parseInt10 (jumlahText item) = Num 0)"
proof -
  have j: "\<forall>r\<in>set (transformJakartaDataByRegion jakarta diseaseType).
         isNumber (rr_laki r) \<and> isNumber (rr_perempuan r) \<and> isNumber (rr_total r)"
    if "\<forall>item\<in>set jakarta. parses (jumlahText item)"
  proof -
    have "\<forall>p\<in>set (foldl (jakartaStep diseaseType) [] jakarta).
            isNumber (fst (snd p)) \<and> isNumber (snd (snd p))"
      using that by (intro foldl_jakartaStep_numbers) simp_all
    then show ?thesis
      by (auto simp add: transformJakartaDataByRegion_def isNumber_jsAdd)
  qed
  have c: "\<forall>r\<in>set (transformCirebonByYear cirebon). isNumber (ly_total r)"
    if "\<forall>item\<in>set cirebon. parses (jumlah_kasus item)"
    unfolding transformCirebonByYear_def
    using that by (intro sumByYear_numbers) simp
  have b: "\<forall>r\<in>set (transformBogorByYear bogor). isNumber (ly_total r)"
    if "\<forall>item\<in>set bogor. parses (jumlah_wabah_lainya item)"
    unfolding transformBogorByYear_def
    using that by (intro sumByYear_numbers) simp
  from j c b jumlahText_empty show ?thesis by blast
qed

theorem legacy_sums_numbers_witness:
  "parses (jumlahText (jakartaItem ''KOTA ADM. JAKARTA PUSAT'' ''Laki-laki'' (Some ''3''))) \<and>
   parses (jumlahText (jakartaItem ''KOTA ADM. JAKARTA PUSAT'' ''Perempuan'' (Some ''''))) \<and>
   transformJakartaDataByRegion
     [jakartaItem ''KOTA ADM. JAKARTA PUSAT'' ''Laki-laki'' (Some ''3''),
      jakartaItem ''KOTA ADM. JAKARTA PUSAT'' ''Perempuan'' (Some '''')] ''difteri'' =
     [\<lparr>rr_name = ''JAKARTA PUSAT'', rr_laki = Num 3, rr_perempuan = Num 0, rr_total = Num 3\<rparr>] \<and>
   list_all (\<lambda>r. isNumber (rr_total r))
     (transformJakartaDataByRegion
        [jakartaItem ''KOTA ADM. JAKARTA PUSAT'' ''Laki-laki'' (Some ''3''),
         jakartaItem ''KOTA ADM. JAKARTA PUSAT'' ''Perempuan'' (Some '''')] ''difteri'') \<and>
   transformCirebonByYear [cirebonItem ''2021'' ''5'', cirebonItem ''2020'' ''2'',
      cirebonItem ''2021'' ''7''] =
     [\<lparr>ly_year = ''2020'', ly_total = Num 2\<rparr>, \<lparr>ly_year = ''2021'', ly_total = Num 12\<rparr>] \<and>
   list_all (\<lambda>r. isNumber (ly_total r))
     (transformCirebonByYear [cirebonItem ''2021'' ''5'', cirebonItem ''2020'' ''2'',
        cirebonItem ''2021'' ''7'']) \<and>
   list_all (\<lambda>r. isNumber (ly_total r))
     (transformBogorByYear [bogorItem ''2021'' ''5'', bogorItem ''2021'' ''7''])"
proof -
  let ?j = "[jakartaItem ''KOTA ADM. JAKARTA PUSAT'' ''Laki-laki'' (Some ''3''),
             jakartaItem ''KOTA ADM. JAKARTA PUSAT'' ''Perempuan'' (Some '''')]"
  let ?c = "[cirebonItem ''2021'' ''5'', cirebonItem ''2020'' ''2'', cirebonItem ''2021'' ''7'']"
  let ?b = "[bogorItem ''2021'' ''5'', bogorItem ''2021'' ''7'']"
  have p1: "parses (jumlahText (jakartaItem ''KOTA ADM. JAKARTA PUSAT'' ''Laki-laki'' (Some ''3'')))"
    by code_simp
  have p2: "parses (jumlahText (jakartaItem ''KOTA ADM. JAKARTA PUSAT'' ''Perempuan'' (Some '''')))"
    by code_simp
  have pj: "\<forall>item\<in>set ?j. parses (jumlahText item)"
    using p1 p2 by simp
  have pc: "\<forall>item\<in>set ?c. parses (jumlah_kasus item)"
    by code_simp
  have pb: "\<forall>item\<in>set ?b. parses (jumlah_wabah_lainya item)"
    by code_simp
  have vj: "transformJakartaDataByRegion ?j ''difteri'' =
     [\<lparr>rr_name = ''JAKARTA PUSAT'', rr_laki = Num 3, rr_perempuan = Num 0, rr_total = Num 3\<rparr>]"
    by code_simp
  have vc: "transformCirebonByYear ?c =
     [\<lparr>ly_year = ''2020'', ly_total = Num 2\<rparr>, \<lparr>ly_year = ''2021'', ly_total = Num 12\<rparr>]"
    by code_simp
  note t = legacy_sums_numbers [of ?j "''difteri''" ?c ?b]
  from t pj have "\<forall>r\<in>set (transformJakartaDataByRegion ?j ''difteri''). isNumber (rr_total r)"
    by blast
  moreover from t pc have "\<forall>r\<in>set (transformCirebonByYear ?c). isNumber (ly_total r)"
    by blast
  moreover from t pb have "\<forall>r\<in>set (transformBogorByYear ?b). isNumber (ly_total r)"
    by blast
  ultimately show ?thesis
    using p1 p2 vj vc by (simp only: list_all_iff simp_thms)
qed

text \<open>
  A field that does not parse is not read as \<open>0\<close>: it makes
  the sum of its key \<^verbatim>\<open>NaN\<close>. (\<^verbatim>\<open>parseInt('n/a', 10)\<close> is \<^verbatim>\<open>NaN\<close>, and \<^verbatim>\<open>NaN\<close> is
  absorbing for \<^verbatim>\<open>+\<close>.)
\<close>

theorem legacy_sums_unparsed_field:
  "transformCirebonByYear [cirebonItem ''2020'' ''2'', cirebonItem ''2020'' ''n/a''] =
     [\<lparr>ly_year = ''2020'', ly_total = NaN\<rparr>] \<and>
   transformBogorByYear [bogorItem ''2020'' ''2'', bogorItem ''2020'' ''n/a''] =
     [\<lparr>ly_year = ''2020'', ly_total = NaN\<rparr>] \<and>
   transformJakartaDataByRegion
     [jakartaItem ''KOTA ADM. JAKARTA PUSAT'' ''Laki-laki'' (Some ''3''),
      jakartaItem ''KOTA ADM. JAKARTA PUSAT'' ''Laki-laki'' (Some ''n/a'')] ''difteri'' =
     [\<lparr>rr_name = ''JAKARTA PUSAT'', rr_laki = NaN, rr_perempuan = Num 0, rr_total = NaN\<rparr>]"
  by code_simp

end
